theory Spec2Isabelle
  imports Main "HOL-Library.Word"
begin

unbundle bit_operations_syntax

section \<open>Machine types\<close>

text \<open>
  \<^verbatim>\<open>int\<close> is a 32-bit machine integer: \<open>*\<close> wraps around, \<^verbatim>\<open>if (size)\<close> tests
  for a non-zero value. A pointer \<^verbatim>\<open>T*\<close> is an address; the null pointer is address \<open>0\<close>.
  The source's parameter \<^verbatim>\<open>size\<close> is written \<open>sz\<close> throughout.
\<close>

type_synonym cint = "32 word"
type_synonym ptr = nat

section \<open>The allocation collaborator\<close>

text \<open>
  \<^verbatim>\<open>ei_conditional_aligned_new<T,Align>(size)\<close> and
  \<^verbatim>\<open>ei_conditional_aligned_delete<T,Align>(ptr, size)\<close> are declared outside
  MatrixStorage.h. They are modelled as an instrumented collaborator: every call is
  appended to a trace, and a table of live blocks remembers, for each address handed out,
  the discipline (\<open>Align\<close>) and the element count it was requested with.
\<close>

datatype call = New bool cint ptr | Delete bool ptr cint

record world =
  calls :: "call list"
  blocks :: "(ptr \<times> bool \<times> cint) list"

text \<open>
  Modelled from the spec: the allocation primitive "parameterized by whether alignment is
  requested". The address it returns is chosen by the parameter \<open>place\<close> (the allocator's
  own policy, which MatrixStorage.h does not see); a null result registers no block.
\<close>

definition ei_conditional_aligned_new ::
  "(world \<Rightarrow> bool \<Rightarrow> cint \<Rightarrow> ptr) \<Rightarrow> bool \<Rightarrow> cint \<Rightarrow> world \<Rightarrow> ptr \<times> world" where
  "ei_conditional_aligned_new place Align sz w =
     (let p = place w Align sz in
      (p, w\<lparr>calls := calls w @ [New Align sz p],
            blocks := (if p = 0 then blocks w else (p, Align, sz) # blocks w)\<rparr>))"

text \<open>
  Modelled from the spec: the deallocation primitive, which receives the pointer and "the
  exact element count being freed". The block at that address stops being live.
\<close>

definition ei_conditional_aligned_delete :: "bool \<Rightarrow> ptr \<Rightarrow> cint \<Rightarrow> world \<Rightarrow> world" where
  "ei_conditional_aligned_delete Align p sz w =
     w\<lparr>calls := calls w @ [Delete Align p sz],
       blocks := filter (\<lambda>e. fst e \<noteq> p) (blocks w)\<rparr>"

text \<open>
  The number of elements addressable through a heap pointer: the count its live block was
  allocated with, zero for the null pointer, \<open>None\<close> for an address that owns no block.
\<close>

definition allocated_count :: "world \<Rightarrow> ptr \<Rightarrow> cint option" where
  "allocated_count w p =
     (if p = 0 then Some 0 else map_option snd (map_of (blocks w) p))"

definition allocated_discipline :: "world \<Rightarrow> ptr \<Rightarrow> bool option" where
  "allocated_discipline w p = map_option fst (map_of (blocks w) p)"

text \<open>
  \<^verbatim>\<open>(_Options&DontAlign)==0\<close>, the template argument \<open>Align\<close> of every collaborator call.
  The enumerator \<^verbatim>\<open>DontAlign\<close> is declared outside MatrixStorage.h and stays a parameter.
\<close>

definition align_requested :: "cint \<Rightarrow> cint \<Rightarrow> bool" where
  "align_requested DontAlign Options = ((Options AND DontAlign) = 0)"

section \<open>Heap-buffer storage\<close>

subsection \<open>\<^verbatim>\<open>ei_matrix_storage<T, Dynamic, Dynamic, Dynamic, _Options>\<close>\<close>

record ddd_storage =
  ddd_m_data :: ptr
  ddd_m_rows :: cint
  ddd_m_cols :: cint

definition ddd_ctor :: "world \<Rightarrow> ddd_storage \<times> world" where
  "ddd_ctor w = (\<lparr>ddd_m_data = 0, ddd_m_rows = 0, ddd_m_cols = 0\<rparr>, w)"

definition ddd_ctor_skip :: "world \<Rightarrow> ddd_storage \<times> world" where
  "ddd_ctor_skip w = (\<lparr>ddd_m_data = 0, ddd_m_rows = 0, ddd_m_cols = 0\<rparr>, w)"

definition ddd_ctor3 ::
  "cint \<Rightarrow> (world \<Rightarrow> bool \<Rightarrow> cint \<Rightarrow> ptr) \<Rightarrow> cint \<Rightarrow> cint \<Rightarrow> cint \<Rightarrow> cint \<Rightarrow> world
     \<Rightarrow> ddd_storage \<times> world" where
  "ddd_ctor3 DontAlign place Options sz rows cols w =
     (let (p, w') = ei_conditional_aligned_new place (align_requested DontAlign Options) sz w
      in (\<lparr>ddd_m_data = p, ddd_m_rows = rows, ddd_m_cols = cols\<rparr>, w'))"

definition ddd_dtor :: "cint \<Rightarrow> cint \<Rightarrow> ddd_storage \<Rightarrow> world \<Rightarrow> world" where
  "ddd_dtor DontAlign Options s w =
     ei_conditional_aligned_delete (align_requested DontAlign Options)
       (ddd_m_data s) (ddd_m_rows s * ddd_m_cols s) w"

text \<open>Three \<^verbatim>\<open>std::swap\<close> calls on the fields, one after the other.\<close>

definition ddd_swap :: "ddd_storage \<times> ddd_storage \<Rightarrow> ddd_storage \<times> ddd_storage" where
  "ddd_swap ab =
     (let (a, b) = ab;
          (a, b) = (a\<lparr>ddd_m_data := ddd_m_data b\<rparr>, b\<lparr>ddd_m_data := ddd_m_data a\<rparr>);
          (a, b) = (a\<lparr>ddd_m_rows := ddd_m_rows b\<rparr>, b\<lparr>ddd_m_rows := ddd_m_rows a\<rparr>);
          (a, b) = (a\<lparr>ddd_m_cols := ddd_m_cols b\<rparr>, b\<lparr>ddd_m_cols := ddd_m_cols a\<rparr>)
      in (a, b))"

definition ddd_rows :: "ddd_storage \<Rightarrow> cint" where
  "ddd_rows s = ddd_m_rows s"

definition ddd_cols :: "ddd_storage \<Rightarrow> cint" where
  "ddd_cols s = ddd_m_cols s"

definition ddd_resize ::
  "cint \<Rightarrow> (world \<Rightarrow> bool \<Rightarrow> cint \<Rightarrow> ptr) \<Rightarrow> cint \<Rightarrow> cint \<Rightarrow> cint \<Rightarrow> cint
     \<Rightarrow> ddd_storage \<times> world \<Rightarrow> ddd_storage \<times> world" where
  "ddd_resize DontAlign place Options sz rows cols sw =
     (let (s, w) = sw;
          (s, w) =
            (if sz \<noteq> ddd_m_rows s * ddd_m_cols s then
               (let w = ei_conditional_aligned_delete (align_requested DontAlign Options)
                          (ddd_m_data s) (ddd_m_rows s * ddd_m_cols s) w
                in if sz \<noteq> 0 then
                     (let (p, w) = ei_conditional_aligned_new place
                                     (align_requested DontAlign Options) sz w
                      in (s\<lparr>ddd_m_data := p\<rparr>, w))
                   else (s\<lparr>ddd_m_data := 0\<rparr>, w))
             else (s, w));
          s = s\<lparr>ddd_m_rows := rows\<rparr>;
          s = s\<lparr>ddd_m_cols := cols\<rparr>
      in (s, w))"

definition ddd_data :: "ddd_storage \<Rightarrow> ptr" where
  "ddd_data s = ddd_m_data s"

subsection \<open>\<^verbatim>\<open>ei_matrix_storage<T, Dynamic, _Rows, Dynamic, _Options>\<close>\<close>

record drd_storage =
  drd_m_data :: ptr
  drd_m_cols :: cint

definition drd_ctor :: "world \<Rightarrow> drd_storage \<times> world" where
  "drd_ctor w = (\<lparr>drd_m_data = 0, drd_m_cols = 0\<rparr>, w)"

definition drd_ctor_skip :: "world \<Rightarrow> drd_storage \<times> world" where
  "drd_ctor_skip w = (\<lparr>drd_m_data = 0, drd_m_cols = 0\<rparr>, w)"

definition drd_ctor3 ::
  "cint \<Rightarrow> (world \<Rightarrow> bool \<Rightarrow> cint \<Rightarrow> ptr) \<Rightarrow> cint \<Rightarrow> cint \<Rightarrow> cint \<Rightarrow> cint \<Rightarrow> world
     \<Rightarrow> drd_storage \<times> world" where
  "drd_ctor3 DontAlign place Options sz rows cols w =
     (let (p, w') = ei_conditional_aligned_new place (align_requested DontAlign Options) sz w
      in (\<lparr>drd_m_data = p, drd_m_cols = cols\<rparr>, w'))"

definition drd_dtor :: "cint \<Rightarrow> cint \<Rightarrow> cint \<Rightarrow> drd_storage \<Rightarrow> world \<Rightarrow> world" where
  "drd_dtor DontAlign Rows Options s w =
     ei_conditional_aligned_delete (align_requested DontAlign Options)
       (drd_m_data s) (Rows * drd_m_cols s) w"

definition drd_swap :: "drd_storage \<times> drd_storage \<Rightarrow> drd_storage \<times> drd_storage" where
  "drd_swap ab =
     (let (a, b) = ab;
          (a, b) = (a\<lparr>drd_m_data := drd_m_data b\<rparr>, b\<lparr>drd_m_data := drd_m_data a\<rparr>);
          (a, b) = (a\<lparr>drd_m_cols := drd_m_cols b\<rparr>, b\<lparr>drd_m_cols := drd_m_cols a\<rparr>)
      in (a, b))"

definition drd_rows :: "cint \<Rightarrow> cint" where
  "drd_rows Rows = Rows"

definition drd_cols :: "drd_storage \<Rightarrow> cint" where
  "drd_cols s = drd_m_cols s"

definition drd_resize ::
  "cint \<Rightarrow> (world \<Rightarrow> bool \<Rightarrow> cint \<Rightarrow> ptr) \<Rightarrow> cint \<Rightarrow> cint \<Rightarrow> cint \<Rightarrow> cint \<Rightarrow> cint
     \<Rightarrow> drd_storage \<times> world \<Rightarrow> drd_storage \<times> world" where
  "drd_resize DontAlign place Rows Options sz rows cols sw =
     (let (s, w) = sw;
          (s, w) =
            (if sz \<noteq> Rows * drd_m_cols s then
               (let w = ei_conditional_aligned_delete (align_requested DontAlign Options)
                          (drd_m_data s) (Rows * drd_m_cols s) w
                in if sz \<noteq> 0 then
                     (let (p, w) = ei_conditional_aligned_new place
                                     (align_requested DontAlign Options) sz w
                      in (s\<lparr>drd_m_data := p\<rparr>, w))
                   else (s\<lparr>drd_m_data := 0\<rparr>, w))
             else (s, w));
          s = s\<lparr>drd_m_cols := cols\<rparr>
      in (s, w))"

definition drd_data :: "drd_storage \<Rightarrow> ptr" where
  "drd_data s = drd_m_data s"

subsection \<open>\<^verbatim>\<open>ei_matrix_storage<T, Dynamic, Dynamic, _Cols, _Options>\<close>\<close>

record ddc_storage =
  ddc_m_data :: ptr
  ddc_m_rows :: cint

definition ddc_ctor :: "world \<Rightarrow> ddc_storage \<times> world" where
  "ddc_ctor w = (\<lparr>ddc_m_data = 0, ddc_m_rows = 0\<rparr>, w)"

definition ddc_ctor_skip :: "world \<Rightarrow> ddc_storage \<times> world" where
  "ddc_ctor_skip w = (\<lparr>ddc_m_data = 0, ddc_m_rows = 0\<rparr>, w)"

definition ddc_ctor3 ::
  "cint \<Rightarrow> (world \<Rightarrow> bool \<Rightarrow> cint \<Rightarrow> ptr) \<Rightarrow> cint \<Rightarrow> cint \<Rightarrow> cint \<Rightarrow> cint \<Rightarrow> world
     \<Rightarrow> ddc_storage \<times> world" where
  "ddc_ctor3 DontAlign place Options sz rows cols w =
     (let (p, w') = ei_conditional_aligned_new place (align_requested DontAlign Options) sz w
      in (\<lparr>ddc_m_data = p, ddc_m_rows = rows\<rparr>, w'))"

definition ddc_dtor :: "cint \<Rightarrow> cint \<Rightarrow> cint \<Rightarrow> ddc_storage \<Rightarrow> world \<Rightarrow> world" where
  "ddc_dtor DontAlign Cols Options s w =
     ei_conditional_aligned_delete (align_requested DontAlign Options)
       (ddc_m_data s) (Cols * ddc_m_rows s) w"

definition ddc_swap :: "ddc_storage \<times> ddc_storage \<Rightarrow> ddc_storage \<times> ddc_storage" where
  "ddc_swap ab =
     (let (a, b) = ab;
          (a, b) = (a\<lparr>ddc_m_data := ddc_m_data b\<rparr>, b\<lparr>ddc_m_data := ddc_m_data a\<rparr>);
          (a, b) = (a\<lparr>ddc_m_rows := ddc_m_rows b\<rparr>, b\<lparr>ddc_m_rows := ddc_m_rows a\<rparr>)
      in (a, b))"

definition ddc_rows :: "ddc_storage \<Rightarrow> cint" where
  "ddc_rows s = ddc_m_rows s"

definition ddc_cols :: "cint \<Rightarrow> cint" where
  "ddc_cols Cols = Cols"

definition ddc_resize ::
  "cint \<Rightarrow> (world \<Rightarrow> bool \<Rightarrow> cint \<Rightarrow> ptr) \<Rightarrow> cint \<Rightarrow> cint \<Rightarrow> cint \<Rightarrow> cint \<Rightarrow> cint
     \<Rightarrow> ddc_storage \<times> world \<Rightarrow> ddc_storage \<times> world" where
  "ddc_resize DontAlign place Cols Options sz rows cols sw =
     (let (s, w) = sw;
          (s, w) =
            (if sz \<noteq> ddc_m_rows s * Cols then
               (let w = ei_conditional_aligned_delete (align_requested DontAlign Options)
                          (ddc_m_data s) (Cols * ddc_m_rows s) w
                in if sz \<noteq> 0 then
                     (let (p, w) = ei_conditional_aligned_new place
                                     (align_requested DontAlign Options) sz w
                      in (s\<lparr>ddc_m_data := p\<rparr>, w))
                   else (s\<lparr>ddc_m_data := 0\<rparr>, w))
             else (s, w));
          s = s\<lparr>ddc_m_rows := rows\<rparr>
      in (s, w))"

definition ddc_data :: "ddc_storage \<Rightarrow> ptr" where
  "ddc_data s = ddc_m_data s"

section \<open>The static array \<^verbatim>\<open>ei_matrix_array\<close>\<close>

text \<open>
  The array is a subobject: it lives where its enclosing object was placed. \<open>array_addr\<close>
  is that address (what \<^verbatim>\<open>array\<close> decays to), \<open>array\<close> the elements stored there.
  Both are chosen outside MatrixStorage.h, by whoever places the object, and are parameters of
  the constructors: \<open>p\<close> the address, \<open>init\<close> the elements the fresh array holds.
\<close>

record 'a ei_matrix_array =
  array_addr :: ptr
  array :: "'a list"

datatype error = Unaligned_array_assert

text \<open>
  The build configuration: whether \<^verbatim>\<open>EIGEN_DISABLE_UNALIGNED_ARRAY_ASSERT\<close> is defined,
  and whether \<^verbatim>\<open>ei_assert\<close> is active.
\<close>

record build =
  EIGEN_DISABLE_UNALIGNED_ARRAY_ASSERT :: bool
  debug :: bool

text \<open>
  Modelled from the spec: \<^verbatim>\<open>ei_assert\<close> is declared outside MatrixStorage.h; the spec calls it
  a debug-only assertion that fails fatally.
\<close>

definition ei_assert :: "build \<Rightarrow> bool \<Rightarrow> error + unit" where
  "ei_assert bld cond = (if debug bld \<and> \<not> cond then Inl Unaligned_array_assert else Inr ())"

definition EIGEN_MAKE_UNALIGNED_ARRAY_ASSERT :: "build \<Rightarrow> nat \<Rightarrow> ptr \<Rightarrow> error + unit" where
  "EIGEN_MAKE_UNALIGNED_ARRAY_ASSERT bld sizemask array_address =
     (if EIGEN_DISABLE_UNALIGNED_ARRAY_ASSERT bld then Inr ()
      else ei_assert bld ((array_address AND sizemask) = 0))"

text \<open>
  The default template argument \<^verbatim>\<open>Alignment\<close>. \<^verbatim>\<open>Size*sizeof(T)\<close> is computed in
  \<^verbatim>\<open>size_t\<close> (64 bits), the \<^verbatim>\<open>int\<close> sign-extended.
\<close>

definition Alignment :: "cint \<Rightarrow> 64 word \<Rightarrow> cint \<Rightarrow> cint \<Rightarrow> cint" where
  "Alignment DontAlign sizeof_T Size MatrixOptions =
     (if (MatrixOptions AND DontAlign) \<noteq> 0 then 0
      else if ((scast Size * sizeof_T) mod 16) = 0 then 16
      else 0)"

text \<open>
  The default constructor. The specialisation for \<^verbatim>\<open>Alignment = 16\<close> runs the
  assertion with mask \<^verbatim>\<open>0xf\<close>; the primary template does nothing. The specialisation
  declares its array \<^verbatim>\<open>EIGEN_ALIGN16\<close>, a request to whoever places the object; whether
  the placement honoured it is what the assertion checks, so \<open>p\<close> is left unconstrained.
\<close>

definition ei_matrix_array_ctor ::
  "build \<Rightarrow> cint \<Rightarrow> ptr \<Rightarrow> 'a list \<Rightarrow> error + 'a ei_matrix_array" where
  "ei_matrix_array_ctor bld Align p init =
     (if Align = 16 then
        (case EIGEN_MAKE_UNALIGNED_ARRAY_ASSERT bld 0xf p of
           Inl e \<Rightarrow> Inl e
         | Inr _ \<Rightarrow> Inr \<lparr>array_addr = p, array = init\<rparr>)
      else Inr \<lparr>array_addr = p, array = init\<rparr>)"

text \<open>The constructor taking \<^verbatim>\<open>ei_constructor_without_unaligned_array_assert\<close>.\<close>

definition ei_matrix_array_ctor_skip :: "ptr \<Rightarrow> 'a list \<Rightarrow> 'a ei_matrix_array" where
  "ei_matrix_array_ctor_skip p init = \<lparr>array_addr = p, array = init\<rparr>"

text \<open>
  \<^verbatim>\<open>std::swap\<close> on two arrays-in-a-struct copies through a temporary: the elements
  change places, the two objects stay where they are.
\<close>

definition swap_array ::
  "'a ei_matrix_array \<times> 'a ei_matrix_array \<Rightarrow> 'a ei_matrix_array \<times> 'a ei_matrix_array" where
  "swap_array xy = (let (x, y) = xy in (x\<lparr>array := array y\<rparr>, y\<lparr>array := array x\<rparr>))"

section \<open>Inline-buffer storage\<close>

subsection \<open>\<^verbatim>\<open>ei_matrix_storage<T, Size, _Rows, _Cols, _Options>\<close>\<close>

record 'a fixed_storage =
  fixed_m_data :: "'a ei_matrix_array"

definition fixed_ctor ::
  "build \<Rightarrow> cint \<Rightarrow> 64 word \<Rightarrow> cint \<Rightarrow> cint \<Rightarrow> ptr \<Rightarrow> 'a list
     \<Rightarrow> error + 'a fixed_storage" where
  "fixed_ctor bld DontAlign sizeof_T Size Options p init =
     (case ei_matrix_array_ctor bld (Alignment DontAlign sizeof_T Size Options) p init of
        Inl e \<Rightarrow> Inl e
      | Inr d \<Rightarrow> Inr \<lparr>fixed_m_data = d\<rparr>)"

definition fixed_ctor_skip :: "ptr \<Rightarrow> 'a list \<Rightarrow> 'a fixed_storage" where
  "fixed_ctor_skip p init = \<lparr>fixed_m_data = ei_matrix_array_ctor_skip p init\<rparr>"

definition fixed_ctor3 ::
  "build \<Rightarrow> cint \<Rightarrow> 64 word \<Rightarrow> cint \<Rightarrow> cint \<Rightarrow> ptr \<Rightarrow> 'a list
     \<Rightarrow> cint \<Rightarrow> cint \<Rightarrow> cint \<Rightarrow> error + 'a fixed_storage" where
  "fixed_ctor3 bld DontAlign sizeof_T Size Options p init sz rows cols =
     (case ei_matrix_array_ctor bld (Alignment DontAlign sizeof_T Size Options) p init of
        Inl e \<Rightarrow> Inl e
      | Inr d \<Rightarrow> Inr \<lparr>fixed_m_data = d\<rparr>)"

definition fixed_swap ::
  "'a fixed_storage \<times> 'a fixed_storage \<Rightarrow> 'a fixed_storage \<times> 'a fixed_storage" where
  "fixed_swap ab =
     (let (a, b) = ab;
          (a, b) = (let (x, y) = swap_array (fixed_m_data a, fixed_m_data b)
                    in (a\<lparr>fixed_m_data := x\<rparr>, b\<lparr>fixed_m_data := y\<rparr>))
      in (a, b))"

definition fixed_rows :: "cint \<Rightarrow> cint" where
  "fixed_rows Rows = Rows"

definition fixed_cols :: "cint \<Rightarrow> cint" where
  "fixed_cols Cols = Cols"

definition fixed_resize :: "cint \<Rightarrow> cint \<Rightarrow> cint \<Rightarrow> 'a fixed_storage \<Rightarrow> 'a fixed_storage" where
  "fixed_resize sz rows cols s =
     s"

definition fixed_data :: "'a fixed_storage \<Rightarrow> ptr" where
  "fixed_data s = array_addr (fixed_m_data s)"

subsection \<open>\<^verbatim>\<open>ei_matrix_storage<T, Size, Dynamic, Dynamic, _Options>\<close>\<close>

record 'a sdd_storage =
  sdd_m_data :: "'a ei_matrix_array"
  sdd_m_rows :: cint
  sdd_m_cols :: cint

definition sdd_ctor ::
  "build \<Rightarrow> cint \<Rightarrow> 64 word \<Rightarrow> cint \<Rightarrow> cint \<Rightarrow> ptr \<Rightarrow> 'a list
     \<Rightarrow> error + 'a sdd_storage" where
  "sdd_ctor bld DontAlign sizeof_T Size Options p init =
     (case ei_matrix_array_ctor bld (Alignment DontAlign sizeof_T Size Options) p init of
        Inl e \<Rightarrow> Inl e
      | Inr d \<Rightarrow> Inr \<lparr>sdd_m_data = d, sdd_m_rows = 0, sdd_m_cols = 0\<rparr>)"

definition sdd_ctor_skip :: "ptr \<Rightarrow> 'a list \<Rightarrow> 'a sdd_storage" where
  "sdd_ctor_skip p init = \<lparr>sdd_m_data = ei_matrix_array_ctor_skip p init, sdd_m_rows = 0, sdd_m_cols = 0\<rparr>"

definition sdd_ctor3 ::
  "build \<Rightarrow> cint \<Rightarrow> 64 word \<Rightarrow> cint \<Rightarrow> cint \<Rightarrow> ptr \<Rightarrow> 'a list
     \<Rightarrow> cint \<Rightarrow> cint \<Rightarrow> cint \<Rightarrow> error + 'a sdd_storage" where
  "sdd_ctor3 bld DontAlign sizeof_T Size Options p init sz rows cols =
     (case ei_matrix_array_ctor bld (Alignment DontAlign sizeof_T Size Options) p init of
        Inl e \<Rightarrow> Inl e
      | Inr d \<Rightarrow> Inr \<lparr>sdd_m_data = d, sdd_m_rows = rows, sdd_m_cols = cols\<rparr>)"

definition sdd_swap ::
  "'a sdd_storage \<times> 'a sdd_storage \<Rightarrow> 'a sdd_storage \<times> 'a sdd_storage" where
  "sdd_swap ab =
     (let (a, b) = ab;
          (a, b) = (let (x, y) = swap_array (sdd_m_data a, sdd_m_data b)
                    in (a\<lparr>sdd_m_data := x\<rparr>, b\<lparr>sdd_m_data := y\<rparr>));
          (a, b) = (a\<lparr>sdd_m_rows := sdd_m_rows b\<rparr>, b\<lparr>sdd_m_rows := sdd_m_rows a\<rparr>);
          (a, b) = (a\<lparr>sdd_m_cols := sdd_m_cols b\<rparr>, b\<lparr>sdd_m_cols := sdd_m_cols a\<rparr>)
      in (a, b))"

definition sdd_rows :: "'a sdd_storage \<Rightarrow> cint" where
  "sdd_rows s = sdd_m_rows s"

definition sdd_cols :: "'a sdd_storage \<Rightarrow> cint" where
  "sdd_cols s = sdd_m_cols s"

definition sdd_resize :: "cint \<Rightarrow> cint \<Rightarrow> cint \<Rightarrow> 'a sdd_storage \<Rightarrow> 'a sdd_storage" where
  "sdd_resize sz rows cols s =
     (let s = s\<lparr>sdd_m_rows := rows\<rparr>;
          s = s\<lparr>sdd_m_cols := cols\<rparr>
      in s)"

definition sdd_data :: "'a sdd_storage \<Rightarrow> ptr" where
  "sdd_data s = array_addr (sdd_m_data s)"

subsection \<open>\<^verbatim>\<open>ei_matrix_storage<T, Size, Dynamic, _Cols, _Options>\<close>\<close>

record 'a sdc_storage =
  sdc_m_data :: "'a ei_matrix_array"
  sdc_m_rows :: cint

definition sdc_ctor ::
  "build \<Rightarrow> cint \<Rightarrow> 64 word \<Rightarrow> cint \<Rightarrow> cint \<Rightarrow> ptr \<Rightarrow> 'a list
     \<Rightarrow> error + 'a sdc_storage" where
  "sdc_ctor bld DontAlign sizeof_T Size Options p init =
     (case ei_matrix_array_ctor bld (Alignment DontAlign sizeof_T Size Options) p init of
        Inl e \<Rightarrow> Inl e
      | Inr d \<Rightarrow> Inr \<lparr>sdc_m_data = d, sdc_m_rows = 0\<rparr>)"

definition sdc_ctor_skip :: "ptr \<Rightarrow> 'a list \<Rightarrow> 'a sdc_storage" where
  "sdc_ctor_skip p init = \<lparr>sdc_m_data = ei_matrix_array_ctor_skip p init, sdc_m_rows = 0\<rparr>"

definition sdc_ctor3 ::
  "build \<Rightarrow> cint \<Rightarrow> 64 word \<Rightarrow> cint \<Rightarrow> cint \<Rightarrow> ptr \<Rightarrow> 'a list
     \<Rightarrow> cint \<Rightarrow> cint \<Rightarrow> cint \<Rightarrow> error + 'a sdc_storage" where
  "sdc_ctor3 bld DontAlign sizeof_T Size Options p init sz rows cols =
     (case ei_matrix_array_ctor bld (Alignment DontAlign sizeof_T Size Options) p init of
        Inl e \<Rightarrow> Inl e
      | Inr d \<Rightarrow> Inr \<lparr>sdc_m_data = d, sdc_m_rows = rows\<rparr>)"

definition sdc_swap ::
  "'a sdc_storage \<times> 'a sdc_storage \<Rightarrow> 'a sdc_storage \<times> 'a sdc_storage" where
  "sdc_swap ab =
     (let (a, b) = ab;
          (a, b) = (let (x, y) = swap_array (sdc_m_data a, sdc_m_data b)
                    in (a\<lparr>sdc_m_data := x\<rparr>, b\<lparr>sdc_m_data := y\<rparr>));
          (a, b) = (a\<lparr>sdc_m_rows := sdc_m_rows b\<rparr>, b\<lparr>sdc_m_rows := sdc_m_rows a\<rparr>)
      in (a, b))"

definition sdc_rows :: "'a sdc_storage \<Rightarrow> cint" where
  "sdc_rows s = sdc_m_rows s"

definition sdc_cols :: "cint \<Rightarrow> cint" where
  "sdc_cols Cols = Cols"

definition sdc_resize :: "cint \<Rightarrow> cint \<Rightarrow> cint \<Rightarrow> 'a sdc_storage \<Rightarrow> 'a sdc_storage" where
  "sdc_resize sz rows cols s =
     (let s = s\<lparr>sdc_m_rows := rows\<rparr>
      in s)"

definition sdc_data :: "'a sdc_storage \<Rightarrow> ptr" where
  "sdc_data s = array_addr (sdc_m_data s)"

subsection \<open>\<^verbatim>\<open>ei_matrix_storage<T, Size, _Rows, Dynamic, _Options>\<close>\<close>

record 'a srd_storage =
  srd_m_data :: "'a ei_matrix_array"
  srd_m_cols :: cint

definition srd_ctor ::
  "build \<Rightarrow> cint \<Rightarrow> 64 word \<Rightarrow> cint \<Rightarrow> cint \<Rightarrow> ptr \<Rightarrow> 'a list
     \<Rightarrow> error + 'a srd_storage" where
  "srd_ctor bld DontAlign sizeof_T Size Options p init =
     (case ei_matrix_array_ctor bld (Alignment DontAlign sizeof_T Size Options) p init of
        Inl e \<Rightarrow> Inl e
      | Inr d \<Rightarrow> Inr \<lparr>srd_m_data = d, srd_m_cols = 0\<rparr>)"

definition srd_ctor_skip :: "ptr \<Rightarrow> 'a list \<Rightarrow> 'a srd_storage" where
  "srd_ctor_skip p init = \<lparr>srd_m_data = ei_matrix_array_ctor_skip p init, srd_m_cols = 0\<rparr>"

definition srd_ctor3 ::
  "build \<Rightarrow> cint \<Rightarrow> 64 word \<Rightarrow> cint \<Rightarrow> cint \<Rightarrow> ptr \<Rightarrow> 'a list
     \<Rightarrow> cint \<Rightarrow> cint \<Rightarrow> cint \<Rightarrow> error + 'a srd_storage" where
  "srd_ctor3 bld DontAlign sizeof_T Size Options p init sz rows cols =
     (case ei_matrix_array_ctor bld (Alignment DontAlign sizeof_T Size Options) p init of
        Inl e \<Rightarrow> Inl e
      | Inr d \<Rightarrow> Inr \<lparr>srd_m_data = d, srd_m_cols = cols\<rparr>)"

definition srd_swap ::
  "'a srd_storage \<times> 'a srd_storage \<Rightarrow> 'a srd_storage \<times> 'a srd_storage" where
  "srd_swap ab =
     (let (a, b) = ab;
          (a, b) = (let (x, y) = swap_array (srd_m_data a, srd_m_data b)
                    in (a\<lparr>srd_m_data := x\<rparr>, b\<lparr>srd_m_data := y\<rparr>));
          (a, b) = (a\<lparr>srd_m_cols := srd_m_cols b\<rparr>, b\<lparr>srd_m_cols := srd_m_cols a\<rparr>)
      in (a, b))"

definition srd_rows :: "cint \<Rightarrow> cint" where
  "srd_rows Rows = Rows"

definition srd_cols :: "'a srd_storage \<Rightarrow> cint" where
  "srd_cols s = srd_m_cols s"

definition srd_resize :: "cint \<Rightarrow> cint \<Rightarrow> cint \<Rightarrow> 'a srd_storage \<Rightarrow> 'a srd_storage" where
  "srd_resize sz rows cols s =
     (let s = s\<lparr>srd_m_cols := cols\<rparr>
      in s)"

definition srd_data :: "'a srd_storage \<Rightarrow> ptr" where
  "srd_data s = array_addr (srd_m_data s)"

section \<open>The null matrix: \<^verbatim>\<open>ei_matrix_storage<T, 0, _Rows, _Cols, _Options>\<close>\<close>

text \<open>The class has no data member: an object carries no state.\<close>

datatype null_storage = Null_storage

definition null_ctor :: "null_storage" where
  "null_ctor = Null_storage"

definition null_ctor_skip :: "null_storage" where
  "null_ctor_skip = Null_storage"

definition null_ctor3 :: "cint \<Rightarrow> cint \<Rightarrow> cint \<Rightarrow> null_storage" where
  "null_ctor3 sz rows cols = Null_storage"

definition null_swap :: "null_storage \<times> null_storage \<Rightarrow> null_storage \<times> null_storage" where
  "null_swap ab = ab"

definition null_rows :: "cint \<Rightarrow> cint" where
  "null_rows Rows = Rows"

definition null_cols :: "cint \<Rightarrow> cint" where
  "null_cols Cols = Cols"

definition null_resize :: "cint \<Rightarrow> cint \<Rightarrow> cint \<Rightarrow> null_storage \<Rightarrow> null_storage" where
  "null_resize sz rows cols s = s"

definition null_data :: "null_storage \<Rightarrow> ptr" where
  "null_data s = 0"

section \<open>Client programs\<close>

text \<open>
  A client owns two objects \<open>a\<close> and \<open>b\<close> of one storage class and one world. It constructs
  both through any of the three constructors and then runs a sequence of \<^verbatim>\<open>resize\<close> calls
  on either object and \<^verbatim>\<open>a.swap(b)\<close> calls.
\<close>

datatype op = Resize_a cint cint cint | Resize_b cint cint cint | Swap

datatype ctor_call = Default | Skip_check | Three cint cint cint

record ('s, 'w) storage_class =
  cls_ctor :: "'w \<Rightarrow> 's \<times> 'w"
  cls_ctor_skip :: "'w \<Rightarrow> 's \<times> 'w"
  cls_ctor3 :: "cint \<Rightarrow> cint \<Rightarrow> cint \<Rightarrow> 'w \<Rightarrow> 's \<times> 'w"
  cls_resize :: "cint \<Rightarrow> cint \<Rightarrow> cint \<Rightarrow> 's \<times> 'w \<Rightarrow> 's \<times> 'w"
  cls_swap :: "'s \<times> 's \<Rightarrow> 's \<times> 's"

fun construct :: "('s, 'w) storage_class \<Rightarrow> ctor_call \<Rightarrow> 'w \<Rightarrow> 's \<times> 'w" where
  "construct cls Default w = cls_ctor cls w"
| "construct cls Skip_check w = cls_ctor_skip cls w"
| "construct cls (Three n r c) w = cls_ctor3 cls n r c w"

fun exec :: "('s, 'w) storage_class \<Rightarrow> op \<Rightarrow> 's \<times> 's \<times> 'w \<Rightarrow> 's \<times> 's \<times> 'w" where
  "exec cls (Resize_a n r c) (a, b, w) =
     (case cls_resize cls n r c (a, w) of (a', w') \<Rightarrow> (a', b, w'))"
| "exec cls (Resize_b n r c) (a, b, w) =
     (case cls_resize cls n r c (b, w) of (b', w') \<Rightarrow> (a, b', w'))"
| "exec cls Swap (a, b, w) = (case cls_swap cls (a, b) of (a', b') \<Rightarrow> (a', b', w))"

fun run :: "('s, 'w) storage_class \<Rightarrow> op list \<Rightarrow> 's \<times> 's \<times> 'w \<Rightarrow> 's \<times> 's \<times> 'w" where
  "run cls [] st = st"
| "run cls (x # xs) st = run cls xs (exec cls x st)"

definition lifetime ::
  "('s, 'w) storage_class \<Rightarrow> ctor_call \<Rightarrow> ctor_call \<Rightarrow> op list \<Rightarrow> 'w \<Rightarrow> 's \<times> 's \<times> 'w" where
  "lifetime cls ca cb ops w =
     (case construct cls ca w of (a, w1) \<Rightarrow>
      case construct cls cb w1 of (b, w2) \<Rightarrow> run cls ops (a, b, w2))"

text \<open>A sequence of \<^verbatim>\<open>resize\<close> calls on one inline-buffer object.\<close>

fun resizes :: "(cint \<Rightarrow> cint \<Rightarrow> cint \<Rightarrow> 's \<Rightarrow> 's) \<Rightarrow> (cint \<times> cint \<times> cint) list \<Rightarrow> 's \<Rightarrow> 's" where
  "resizes rs [] s = s"
| "resizes rs ((n, r, c) # xs) s = resizes rs xs (rs n r c s)"

definition ddd_class ::
  "cint \<Rightarrow> (world \<Rightarrow> bool \<Rightarrow> cint \<Rightarrow> ptr) \<Rightarrow> cint \<Rightarrow> (ddd_storage, world) storage_class" where
  "ddd_class DontAlign place Options =
     \<lparr>cls_ctor = ddd_ctor, cls_ctor_skip = ddd_ctor_skip,
      cls_ctor3 = ddd_ctor3 DontAlign place Options,
      cls_resize = ddd_resize DontAlign place Options,
      cls_swap = ddd_swap\<rparr>"

definition drd_class ::
  "cint \<Rightarrow> (world \<Rightarrow> bool \<Rightarrow> cint \<Rightarrow> ptr) \<Rightarrow> cint \<Rightarrow> cint
     \<Rightarrow> (drd_storage, world) storage_class" where
  "drd_class DontAlign place Rows Options =
     \<lparr>cls_ctor = drd_ctor, cls_ctor_skip = drd_ctor_skip,
      cls_ctor3 = drd_ctor3 DontAlign place Options,
      cls_resize = drd_resize DontAlign place Rows Options,
      cls_swap = drd_swap\<rparr>"

definition ddc_class ::
  "cint \<Rightarrow> (world \<Rightarrow> bool \<Rightarrow> cint \<Rightarrow> ptr) \<Rightarrow> cint \<Rightarrow> cint
     \<Rightarrow> (ddc_storage, world) storage_class" where
  "ddc_class DontAlign place Cols Options =
     \<lparr>cls_ctor = ddc_ctor, cls_ctor_skip = ddc_ctor_skip,
      cls_ctor3 = ddc_ctor3 DontAlign place Options,
      cls_resize = ddc_resize DontAlign place Cols Options,
      cls_swap = ddc_swap\<rparr>"

definition null_class :: "(null_storage, 'w) storage_class" where
  "null_class =
     \<lparr>cls_ctor = (\<lambda>w. (null_ctor, w)), cls_ctor_skip = (\<lambda>w. (null_ctor_skip, w)),
      cls_ctor3 = (\<lambda>n r c w. (null_ctor3 n r c, w)),
      cls_resize = (\<lambda>n r c sw. (null_resize n r c (fst sw), snd sw)),
      cls_swap = null_swap\<rparr>"

subsection \<open>What the caller and the allocator are expected to do\<close>

text \<open>
  The caller's side of the contract: the element count passed to a three-argument
  constructor or to \<^verbatim>\<open>resize\<close> is the product of the dimensions that call establishes.
  \<open>prd r c\<close> is that product for the class at hand: \<open>r * c\<close>, \<open>_Rows * c\<close> or \<open>r * _Cols\<close>.
\<close>

fun consistent_ctor :: "(cint \<Rightarrow> cint \<Rightarrow> cint) \<Rightarrow> ctor_call \<Rightarrow> bool" where
  "consistent_ctor prd (Three n r c) = (n = prd r c)"
| "consistent_ctor prd _ = True"

fun consistent_op :: "(cint \<Rightarrow> cint \<Rightarrow> cint) \<Rightarrow> op \<Rightarrow> bool" where
  "consistent_op prd (Resize_a n r c) = (n = prd r c)"
| "consistent_op prd (Resize_b n r c) = (n = prd r c)"
| "consistent_op prd Swap = True"

fun nonzero_ctor :: "ctor_call \<Rightarrow> bool" where
  "nonzero_ctor (Three n r c) = (n \<noteq> 0)"
| "nonzero_ctor _ = True"

text \<open>
  The allocator's side: a request for a non-zero count yields a non-null address, and no
  request yields an address whose block is still live.
\<close>

definition nonnull_place :: "(world \<Rightarrow> bool \<Rightarrow> cint \<Rightarrow> ptr) \<Rightarrow> bool" where
  "nonnull_place place = (\<forall>w al n. n \<noteq> 0 \<longrightarrow> place w al n \<noteq> 0)"

definition fresh_place :: "(world \<Rightarrow> bool \<Rightarrow> cint \<Rightarrow> ptr) \<Rightarrow> bool" where
  "fresh_place place = (\<forall>w al n. place w al n \<notin> fst ` set (blocks w))"

text \<open>
  A concrete allocator for running examples: it hands out an address 16 above every live
  address.
\<close>

definition bump :: "world \<Rightarrow> bool \<Rightarrow> cint \<Rightarrow> ptr" where
  "bump w Align sz = fold max (map fst (blocks w)) 0 + 16"

definition empty_world :: world where
  "empty_world = \<lparr>calls = [], blocks = []\<rparr>"

section \<open>Specification-side notions\<close>

text \<open>
  The post-condition of \<^verbatim>\<open>resize\<close> on a heap-buffer class, in the words of the
  specification. \<open>sz\<close> is the requested element count, \<open>P\<close> the product of the previously
  stored dimensions, \<open>p\<close> and \<open>w\<close> the buffer pointer and world before the call, \<open>p'\<close> and
  \<open>w'\<close> after it.
\<close>

definition resize_contract ::
  "bool \<Rightarrow> cint \<Rightarrow> cint \<Rightarrow> ptr \<Rightarrow> world \<Rightarrow> ptr \<Rightarrow> world \<Rightarrow> bool" where
  "resize_contract al sz P p w p' w' =
     ((sz = P \<longrightarrow> p' = p \<and> w' = w) \<and>
      (sz \<noteq> P \<longrightarrow> sz = 0 \<longrightarrow> p' = 0 \<and> calls w' = calls w @ [Delete al p P]) \<and>
      (sz \<noteq> P \<longrightarrow> sz \<noteq> 0 \<longrightarrow>
         calls w' = calls w @ [Delete al p P, New al sz p'] \<and>
         (p' \<noteq> 0 \<longrightarrow> allocated_count w' p' = Some sz)))"

text \<open>
  An object with buffer pointer \<open>p\<close> and element count \<open>n\<close> owns its buffer in world \<open>w\<close>:
  a null pointer goes with count zero, any other pointer names a live block acquired with
  discipline \<open>al\<close> and count \<open>n\<close>.
\<close>

definition owns :: "bool \<Rightarrow> world \<Rightarrow> ptr \<Rightarrow> cint \<Rightarrow> bool" where
  "owns al w p n = (if p = 0 then n = 0 else map_of (blocks w) p = Some (al, n))"

definition pair_owns ::
  "bool \<Rightarrow> ('s \<Rightarrow> ptr) \<Rightarrow> ('s \<Rightarrow> cint) \<Rightarrow> 's \<times> 's \<times> world \<Rightarrow> bool" where
  "pair_owns al dat cnt st =
     (case st of (a, b, w) \<Rightarrow>
        owns al w (dat a) (cnt a) \<and> owns al w (dat b) (cnt b) \<and>
        (dat a \<noteq> 0 \<longrightarrow> dat a \<noteq> dat b))"

definition pair_null_iff :: "('s \<Rightarrow> ptr) \<Rightarrow> ('s \<Rightarrow> cint) \<Rightarrow> 's \<times> 's \<times> world \<Rightarrow> bool" where
  "pair_null_iff dat cnt st =
     (case st of (a, b, w) \<Rightarrow> (dat a = 0 \<longleftrightarrow> cnt a = 0) \<and> (dat b = 0 \<longleftrightarrow> cnt b = 0))"

text \<open>
  The part the three heap-buffer \<^verbatim>\<open>resize\<close> bodies have in common, on the buffer pointer
  alone; each body is shown below to be an instance of it.
\<close>

definition realloc ::
  "bool \<Rightarrow> (world \<Rightarrow> bool \<Rightarrow> cint \<Rightarrow> ptr) \<Rightarrow> cint \<Rightarrow> cint \<Rightarrow> ptr \<times> world \<Rightarrow> ptr \<times> world" where
  "realloc al place sz P pw =
     (case pw of (p, w) \<Rightarrow>
        if sz = P then (p, w)
        else let w1 = ei_conditional_aligned_delete al p P w
             in if sz = 0 then (0, w1) else ei_conditional_aligned_new place al sz w1)"

definition heap_class ::
  "bool \<Rightarrow> (world \<Rightarrow> bool \<Rightarrow> cint \<Rightarrow> ptr) \<Rightarrow> (cint \<Rightarrow> cint \<Rightarrow> cint) \<Rightarrow> ('s \<Rightarrow> ptr) \<Rightarrow> ('s \<Rightarrow> cint)
     \<Rightarrow> ('s, world) storage_class \<Rightarrow> bool" where
  "heap_class al place prd dat cnt cls \<longleftrightarrow>
     (\<forall>w. snd (cls_ctor cls w) = w \<and> dat (fst (cls_ctor cls w)) = 0 \<and>
          cnt (fst (cls_ctor cls w)) = 0) \<and>
     (\<forall>w. snd (cls_ctor_skip cls w) = w \<and> dat (fst (cls_ctor_skip cls w)) = 0 \<and>
          cnt (fst (cls_ctor_skip cls w)) = 0) \<and>
     (\<forall>n r c w. snd (cls_ctor3 cls n r c w) = snd (ei_conditional_aligned_new place al n w) \<and>
          dat (fst (cls_ctor3 cls n r c w)) = place w al n \<and>
          cnt (fst (cls_ctor3 cls n r c w)) = prd r c) \<and>
     (\<forall>n r c s w. snd (cls_resize cls n r c (s, w)) = snd (realloc al place n (cnt s) (dat s, w)) \<and>
          dat (fst (cls_resize cls n r c (s, w))) = fst (realloc al place n (cnt s) (dat s, w)) \<and>
          cnt (fst (cls_resize cls n r c (s, w))) = prd r c) \<and>
     (\<forall>a b. cls_swap cls (a, b) = (b, a))"

text \<open>A client that keeps the caller's side of the contract throughout.\<close>

definition consistent_client :: "(cint \<Rightarrow> cint \<Rightarrow> cint) \<Rightarrow> ctor_call \<Rightarrow> ctor_call \<Rightarrow> op list \<Rightarrow> bool" where
  "consistent_client prd ca cb ops =
     (consistent_ctor prd ca \<and> consistent_ctor prd cb \<and> list_all (consistent_op prd) ops)"

text \<open>No three-argument construction asks for zero elements.\<close>

definition nonzero_client :: "ctor_call \<Rightarrow> ctor_call \<Rightarrow> bool" where
  "nonzero_client ca cb = (nonzero_ctor ca \<and> nonzero_ctor cb)"

text \<open>
  Destruction in the words of the specification: going from world \<open>w\<close> to \<open>w'\<close>, exactly
  one deallocation call is made, for pointer \<open>p\<close>, with the discipline and the element
  count the buffer at \<open>p\<close> was acquired with; afterwards that block is no longer live.
\<close>

definition releases_owned_buffer :: "bool \<Rightarrow> ptr \<Rightarrow> world \<Rightarrow> world \<Rightarrow> bool" where
  "releases_owned_buffer al p w w' =
     (case allocated_count w p of
        None \<Rightarrow> False
      | Some N \<Rightarrow>
          calls w' = calls w @ [Delete al p N] \<and>
          (p \<noteq> 0 \<longrightarrow> allocated_discipline w p = Some al \<and> allocated_count w' p = None))"

text \<open>An address is aligned to the 16-byte vector width.\<close>

definition aligned16 :: "ptr \<Rightarrow> bool" where
  "aligned16 p = (16 dvd p)"

section \<open>Auxiliary facts\<close>

lemma run_invariant:
  assumes step: "\<And>x st. ok x \<Longrightarrow> I st \<Longrightarrow> I (exec cls x st)"
  shows "list_all ok xs \<Longrightarrow> I st \<Longrightarrow> I (run cls xs st)"
  by (induction xs arbitrary: st) (simp_all add: step)

lemma map_of_filter_other:
  "q \<noteq> p \<Longrightarrow> map_of (filter (\<lambda>e. fst e \<noteq> p) xs) q = map_of xs q"
  by (induction xs) auto

lemma map_of_in_keys: "map_of xs q = Some v \<Longrightarrow> q \<in> fst ` set xs"
  by (metis map_of_eq_None_iff option.distinct(1))

lemma nonnull_placeD: "nonnull_place place \<Longrightarrow> n \<noteq> 0 \<Longrightarrow> place w al n \<noteq> 0"
  unfolding nonnull_place_def by blast

lemma fresh_placeD: "fresh_place place \<Longrightarrow> map_of (blocks w) (place w al n) = None"
  unfolding fresh_place_def by (simp add: map_of_eq_None_iff)

lemma blocks_delete:
  "blocks (ei_conditional_aligned_delete al p m w) = filter (\<lambda>e. fst e \<noteq> p) (blocks w)"
  by (simp add: ei_conditional_aligned_delete_def)

lemma blocks_new:
  "blocks (snd (ei_conditional_aligned_new place al m w)) =
     (if place w al m = 0 then blocks w else (place w al m, al, m) # blocks w)"
  by (simp add: ei_conditional_aligned_new_def Let_def)

lemma fst_new: "fst (ei_conditional_aligned_new place al m w) = place w al m"
  by (simp add: ei_conditional_aligned_new_def Let_def)

lemma owns_null: "owns al w 0 n = (n = 0)"
  by (simp add: owns_def)

lemma owns_delete:
  assumes "owns al w q n" and "q \<noteq> p"
  shows "owns al (ei_conditional_aligned_delete al' p m w) q n"
proof (cases "q = 0")
  case True
  with assms show ?thesis by (simp add: owns_def)
next
  case False
  with assms(1) have "map_of (blocks w) q = Some (al, n)" by (simp add: owns_def)
  then have "map_of (filter (\<lambda>e. fst e \<noteq> p) (blocks w)) q = Some (al, n)"
    by (simp only: map_of_filter_other [OF assms(2)])
  with False show ?thesis unfolding owns_def blocks_delete by simp
qed

lemma owns_new_other:
  assumes "owns al w q n" and "fresh_place place"
  shows "owns al (snd (ei_conditional_aligned_new place al' m w)) q n"
proof (cases "q = 0")
  case True
  with assms show ?thesis by (simp add: owns_def)
next
  case False
  with assms(1) have q: "map_of (blocks w) q = Some (al, n)" by (simp add: owns_def)
  have "place w al' m \<noteq> q" using fresh_placeD [OF assms(2), of w al' m] q by auto
  with q False show ?thesis by (simp add: owns_def blocks_new)
qed

lemma owns_new_self:
  assumes "nonnull_place place"
  shows "owns al (snd (ei_conditional_aligned_new place al m w)) (place w al m) m"
proof (cases "place w al m = 0")
  case True
  with nonnull_placeD [OF assms, of m w al] have "m = 0" by blast
  with True show ?thesis by (simp add: owns_def)
next
  case False
  then show ?thesis by (simp add: owns_def blocks_new)
qed

lemma place_not_owned:
  assumes "fresh_place place" and "owns al w q n" and "q \<noteq> 0"
  shows "place w al' m \<noteq> q"
proof
  assume "place w al' m = q"
  with fresh_placeD [OF assms(1), of w al' m] have "map_of (blocks w) q = None" by simp
  with assms(2,3) show False by (simp add: owns_def)
qed

lemma ddd_resize_realloc:
  "ddd_resize DontAlign place Options sz rows cols (s, w) =
     (case realloc (align_requested DontAlign Options) place sz (ddd_m_rows s * ddd_m_cols s)
             (ddd_m_data s, w) of
        (p, w') \<Rightarrow> (s\<lparr>ddd_m_data := p, ddd_m_rows := rows, ddd_m_cols := cols\<rparr>, w'))"
  by (simp add: ddd_resize_def realloc_def Let_def split: prod.splits)

lemma drd_resize_realloc:
  "drd_resize DontAlign place Rows Options sz rows cols (s, w) =
     (case realloc (align_requested DontAlign Options) place sz (Rows * drd_m_cols s)
             (drd_m_data s, w) of
        (p, w') \<Rightarrow> (s\<lparr>drd_m_data := p, drd_m_cols := cols\<rparr>, w'))"
  by (simp add: drd_resize_def realloc_def Let_def split: prod.splits)

lemma ddc_resize_realloc:
  "ddc_resize DontAlign place Cols Options sz rows cols (s, w) =
     (case realloc (align_requested DontAlign Options) place sz (ddc_m_rows s * Cols)
             (ddc_m_data s, w) of
        (p, w') \<Rightarrow> (s\<lparr>ddc_m_data := p, ddc_m_rows := rows\<rparr>, w'))"
  by (simp add: ddc_resize_def realloc_def Let_def mult.commute split: prod.splits)

lemma realloc_owns:
  assumes pl: "nonnull_place place" "fresh_place place"
    and a: "owns al w p P"
    and b: "owns al w q m"
    and d: "p \<noteq> 0 \<longrightarrow> p \<noteq> q"
    and R: "realloc al place sz P (p, w) = (p', w')"
  shows "owns al w' p' sz \<and> owns al w' q m \<and> (p' \<noteq> 0 \<longrightarrow> p' \<noteq> q)"
proof (cases "sz = P")
  case True
  with R a b d show ?thesis by (simp add: realloc_def)
next
  case False
  define w1 where "w1 = ei_conditional_aligned_delete al p P w"
  have b1: "owns al w1 q m"
  proof (cases "q = 0")
    case True
    with b show ?thesis by (simp add: owns_def)
  next
    case q: False
    have "q \<noteq> p"
    proof
      assume "q = p"
      with q d show False by simp
    qed
    then show ?thesis unfolding w1_def using b by (rule owns_delete [rotated])
  qed
  show ?thesis
  proof (cases "sz = 0")
    case True
    with False R have "p' = 0" "w' = w1" by (simp_all add: realloc_def w1_def)
    with b1 True show ?thesis by (simp add: owns_def)
  next
    case nz: False
    with False R have p': "p' = place w1 al sz"
      and w': "w' = snd (ei_conditional_aligned_new place al sz w1)"
      by (auto simp: realloc_def w1_def Let_def ei_conditional_aligned_new_def)
    have "owns al w' p' sz" unfolding p' w' by (rule owns_new_self [OF pl(1)])
    moreover have "owns al w' q m" unfolding w' by (rule owns_new_other [OF b1 pl(2)])
    moreover have "p' \<noteq> 0 \<longrightarrow> p' \<noteq> q"
    proof
      assume "p' \<noteq> 0"
      show "p' \<noteq> q"
      proof (cases "q = 0")
        case True
        with \<open>p' \<noteq> 0\<close> show ?thesis by simp
      next
        case False
        from place_not_owned [OF pl(2) b1 False] show ?thesis unfolding p' .
      qed
    qed
    ultimately show ?thesis by blast
  qed
qed

lemma realloc_null_iff:
  assumes pl: "nonnull_place place"
    and a: "p = 0 \<longleftrightarrow> P = 0"
  shows "fst (realloc al place sz P (p, w)) = 0 \<longleftrightarrow> sz = 0"
proof (cases "sz = P")
  case True
  with a show ?thesis by (simp add: realloc_def)
next
  case False
  show ?thesis
  proof (cases "sz = 0")
    case True
    with False show ?thesis by (simp add: realloc_def)
  next
    case nz: False
    from nonnull_placeD [OF pl nz] False nz show ?thesis
      by (simp add: realloc_def Let_def fst_new)
  qed
qed

lemma ddd_swap_eq: "ddd_swap (a, b) = (b, a)"
  by (cases a; cases b) (simp add: ddd_swap_def)

lemma drd_swap_eq: "drd_swap (a, b) = (b, a)"
  by (cases a; cases b) (simp add: drd_swap_def)

lemma ddc_swap_eq: "ddc_swap (a, b) = (b, a)"
  by (cases a; cases b) (simp add: ddc_swap_def)

lemma ddd_heap_class:
  "heap_class (align_requested DontAlign Options) place (\<lambda>r c. r * c)
     ddd_data (\<lambda>s. ddd_rows s * ddd_cols s) (ddd_class DontAlign place Options)"
  unfolding heap_class_def
  by (simp add: ddd_class_def ddd_ctor_def ddd_ctor_skip_def ddd_ctor3_def ddd_resize_realloc
      ddd_swap_eq ddd_data_def ddd_rows_def ddd_cols_def fst_new case_prod_beta)

lemma drd_heap_class:
  "heap_class (align_requested DontAlign Options) place (\<lambda>r c. Rows * c)
     drd_data (\<lambda>s. drd_rows Rows * drd_cols s) (drd_class DontAlign place Rows Options)"
  unfolding heap_class_def
  by (simp add: drd_class_def drd_ctor_def drd_ctor_skip_def drd_ctor3_def drd_resize_realloc
      drd_swap_eq drd_data_def drd_rows_def drd_cols_def fst_new case_prod_beta)

lemma ddc_heap_class:
  "heap_class (align_requested DontAlign Options) place (\<lambda>r c. r * Cols)
     ddc_data (\<lambda>s. ddc_rows s * ddc_cols Cols) (ddc_class DontAlign place Cols Options)"
  unfolding heap_class_def
  by (simp add: ddc_class_def ddc_ctor_def ddc_ctor_skip_def ddc_ctor3_def ddc_resize_realloc
      ddc_swap_eq ddc_data_def ddc_rows_def ddc_cols_def fst_new case_prod_beta)

lemma heap_class_resize:
  assumes "heap_class al place prd dat cnt cls"
  shows "snd (cls_resize cls n r c (s, w)) = snd (realloc al place n (cnt s) (dat s, w))"
    and "dat (fst (cls_resize cls n r c (s, w))) = fst (realloc al place n (cnt s) (dat s, w))"
    and "cnt (fst (cls_resize cls n r c (s, w))) = prd r c"
  using assms unfolding heap_class_def by blast+

lemma heap_class_swap:
  assumes "heap_class al place prd dat cnt cls"
  shows "cls_swap cls (a, b) = (b, a)"
  using assms unfolding heap_class_def by blast

lemma heap_class_construct:
  assumes "heap_class al place prd dat cnt cls"
  shows "construct cls Default w = (s, w') \<Longrightarrow> w' = w \<and> dat s = 0 \<and> cnt s = 0"
    and "construct cls Skip_check w = (s, w') \<Longrightarrow> w' = w \<and> dat s = 0 \<and> cnt s = 0"
    and "construct cls (Three n r c) w = (s, w') \<Longrightarrow>
           w' = snd (ei_conditional_aligned_new place al n w) \<and> dat s = place w al n \<and>
           cnt s = prd r c"
proof -
  from assms have c0: "snd (cls_ctor cls w) = w \<and> dat (fst (cls_ctor cls w)) = 0 \<and>
          cnt (fst (cls_ctor cls w)) = 0"
    and cs: "snd (cls_ctor_skip cls w) = w \<and> dat (fst (cls_ctor_skip cls w)) = 0 \<and>
          cnt (fst (cls_ctor_skip cls w)) = 0"
    and c3: "snd (cls_ctor3 cls n r c w) = snd (ei_conditional_aligned_new place al n w) \<and>
          dat (fst (cls_ctor3 cls n r c w)) = place w al n \<and>
          cnt (fst (cls_ctor3 cls n r c w)) = prd r c"
    unfolding heap_class_def by blast+
  show "construct cls Default w = (s, w') \<Longrightarrow> w' = w \<and> dat s = 0 \<and> cnt s = 0"
    using c0 by auto
  show "construct cls Skip_check w = (s, w') \<Longrightarrow> w' = w \<and> dat s = 0 \<and> cnt s = 0"
    using cs by auto
  show "construct cls (Three n r c) w = (s, w') \<Longrightarrow>
           w' = snd (ei_conditional_aligned_new place al n w) \<and> dat s = place w al n \<and>
           cnt s = prd r c"
    using c3 by auto
qed

lemma heap_step_owns:
  assumes hc: "heap_class al place prd dat cnt cls"
    and pl: "nonnull_place place" "fresh_place place"
    and c: "consistent_op prd x"
    and I: "pair_owns al dat cnt st"
  shows "pair_owns al dat cnt (exec cls x st)"
proof -
  obtain a b w where st: "st = (a, b, w)" by (cases st)
  from I have a: "owns al w (dat a) (cnt a)" and b: "owns al w (dat b) (cnt b)"
    and d: "dat a \<noteq> 0 \<longrightarrow> dat a \<noteq> dat b"
    by (simp_all add: st pair_owns_def)
  from d have d': "dat b \<noteq> 0 \<longrightarrow> dat b \<noteq> dat a" by auto
  show ?thesis
  proof (cases x)
    case (Resize_a n r k)
    with c have n: "prd r k = n" by simp
    obtain p' w' where R: "realloc al place n (cnt a) (dat a, w) = (p', w')"
      by (cases "realloc al place n (cnt a) (dat a, w)")
    from realloc_owns [OF pl a b d R] heap_class_resize [OF hc, of n r k a w] show ?thesis
      by (simp add: st Resize_a R pair_owns_def n case_prod_beta)
  next
    case (Resize_b n r k)
    with c have n: "prd r k = n" by simp
    obtain p' w' where R: "realloc al place n (cnt b) (dat b, w) = (p', w')"
      by (cases "realloc al place n (cnt b) (dat b, w)")
    from realloc_owns [OF pl b a d' R] heap_class_resize [OF hc, of n r k b w] show ?thesis
      by (auto simp add: st Resize_b R pair_owns_def n case_prod_beta)
  next
    case Swap
    from a b d' show ?thesis
      by (simp add: st Swap heap_class_swap [OF hc] pair_owns_def)
  qed
qed

lemma heap_construct_owns:
  assumes hc: "heap_class al place prd dat cnt cls"
    and pl: "nonnull_place place" "fresh_place place"
    and c: "consistent_ctor prd ca"
    and b: "owns al w q m"
    and C: "construct cls ca w = (s, w')"
  shows "owns al w' (dat s) (cnt s) \<and> owns al w' q m \<and> (dat s \<noteq> 0 \<longrightarrow> dat s \<noteq> q)"
proof (cases ca)
  case Default
  with heap_class_construct(1) [OF hc, of w s w'] C b show ?thesis by (simp add: owns_def)
next
  case Skip_check
  with heap_class_construct(2) [OF hc, of w s w'] C b show ?thesis by (simp add: owns_def)
next
  case (Three n r k)
  with c have n: "prd r k = n" by simp
  from heap_class_construct(3) [OF hc, of n r k w s w'] C Three
  have w': "w' = snd (ei_conditional_aligned_new place al n w)" and s: "dat s = place w al n"
    and k: "cnt s = n" by (simp_all add: n)
  have "owns al w' (dat s) (cnt s)" unfolding w' s k by (rule owns_new_self [OF pl(1)])
  moreover have "owns al w' q m" unfolding w' by (rule owns_new_other [OF b pl(2)])
  moreover have "dat s \<noteq> 0 \<longrightarrow> dat s \<noteq> q"
  proof (cases "q = 0")
    case True
    then show ?thesis by simp
  next
    case False
    from place_not_owned [OF pl(2) b False] show ?thesis unfolding s by simp
  qed
  ultimately show ?thesis by blast
qed

lemma heap_lifetime_owns:
  assumes hc: "heap_class al place prd dat cnt cls"
    and pl: "nonnull_place place" "fresh_place place"
    and ca: "consistent_ctor prd ca" and cb: "consistent_ctor prd cb"
    and ops: "list_all (consistent_op prd) ops"
  shows "pair_owns al dat cnt (lifetime cls ca cb ops w)"
proof -
  obtain a w1 where A: "construct cls ca w = (a, w1)" by (cases "construct cls ca w")
  obtain b w2 where B: "construct cls cb w1 = (b, w2)" by (cases "construct cls cb w1")
  have z: "owns al w 0 0" by (simp add: owns_def)
  from heap_construct_owns [OF hc pl ca z A] have a: "owns al w1 (dat a) (cnt a)" by simp
  from heap_construct_owns [OF hc pl cb a B]
  have "pair_owns al dat cnt (a, b, w2)" by (auto simp: pair_owns_def)
  moreover have "\<And>x st. consistent_op prd x \<Longrightarrow> pair_owns al dat cnt st \<Longrightarrow>
                    pair_owns al dat cnt (exec cls x st)"
    by (rule heap_step_owns [OF hc pl])
  ultimately have "pair_owns al dat cnt (run cls ops (a, b, w2))"
    using ops run_invariant [of "consistent_op prd" "pair_owns al dat cnt" cls ops "(a, b, w2)"]
    by blast
  then show ?thesis by (simp add: lifetime_def A B)
qed

lemma realloc_contract:
  "realloc al place sz P (p, w) = (p', w') \<Longrightarrow> resize_contract al sz P p w p' w'"
  by (auto simp: realloc_def resize_contract_def Let_def ei_conditional_aligned_new_def
      ei_conditional_aligned_delete_def allocated_count_def split: if_splits)

lemma swap_array_twice: "swap_array (swap_array (x, y)) = (x, y)"
  by (cases x; cases y) (simp add: swap_array_def)

lemma fixed_swap_twice: "fixed_swap (fixed_swap (a, b)) = (a, b)"
  by (cases a; cases b) (simp add: fixed_swap_def swap_array_def)

lemma sdd_swap_twice: "sdd_swap (sdd_swap (a, b)) = (a, b)"
  by (cases a; cases b) (simp add: sdd_swap_def swap_array_def)

lemma sdc_swap_twice: "sdc_swap (sdc_swap (a, b)) = (a, b)"
  by (cases a; cases b) (simp add: sdc_swap_def swap_array_def)

lemma srd_swap_twice: "srd_swap (srd_swap (a, b)) = (a, b)"
  by (cases a; cases b) (simp add: srd_swap_def swap_array_def)

lemma fixed_swap_once:
  "fixed_swap (a, b) =
     (a\<lparr>fixed_m_data := (fixed_m_data a)\<lparr>array := array (fixed_m_data b)\<rparr>\<rparr>,
      b\<lparr>fixed_m_data := (fixed_m_data b)\<lparr>array := array (fixed_m_data a)\<rparr>\<rparr>)"
  by (simp add: fixed_swap_def swap_array_def)

lemma sdd_swap_once:
  "sdd_swap (a, b) =
     (b\<lparr>sdd_m_data := (sdd_m_data a)\<lparr>array := array (sdd_m_data b)\<rparr>\<rparr>,
      a\<lparr>sdd_m_data := (sdd_m_data b)\<lparr>array := array (sdd_m_data a)\<rparr>\<rparr>)"
  by (cases a; cases b) (simp add: sdd_swap_def swap_array_def)

lemma sdc_swap_once:
  "sdc_swap (a, b) =
     (b\<lparr>sdc_m_data := (sdc_m_data a)\<lparr>array := array (sdc_m_data b)\<rparr>\<rparr>,
      a\<lparr>sdc_m_data := (sdc_m_data b)\<lparr>array := array (sdc_m_data a)\<rparr>\<rparr>)"
  by (cases a; cases b) (simp add: sdc_swap_def swap_array_def)

lemma srd_swap_once:
  "srd_swap (a, b) =
     (b\<lparr>srd_m_data := (srd_m_data a)\<lparr>array := array (srd_m_data b)\<rparr>\<rparr>,
      a\<lparr>srd_m_data := (srd_m_data b)\<lparr>array := array (srd_m_data a)\<rparr>\<rparr>)"
  by (cases a; cases b) (simp add: srd_swap_def swap_array_def)

lemmas ctor_eval = sdd_ctor_def sdc_ctor_def srd_ctor_def fixed_ctor_def ei_matrix_array_ctor_def
  Alignment_def EIGEN_MAKE_UNALIGNED_ARRAY_ASSERT_def ei_assert_def

lemma sdd_resizes_frame: "sdd_m_data (resizes sdd_resize xs s) = sdd_m_data s"
  by (induction xs arbitrary: s) (auto simp: sdd_resize_def)

lemma sdc_resizes_frame: "sdc_m_data (resizes sdc_resize xs s) = sdc_m_data s"
  by (induction xs arbitrary: s) (auto simp: sdc_resize_def)

lemma srd_resizes_frame: "srd_m_data (resizes srd_resize xs s) = srd_m_data s"
  by (induction xs arbitrary: s) (auto simp: srd_resize_def)

lemma fixed_resizes_frame: "resizes fixed_resize xs s = s"
  by (induction xs arbitrary: s) (auto simp: fixed_resize_def)

lemma ei_matrix_array_ctor_addr:
  "ei_matrix_array_ctor bld Align p init = Inr d \<Longrightarrow> array_addr d = p"
  by (auto simp: ei_matrix_array_ctor_def split: if_splits sum.splits)

lemma inline_ctor_data:
  "fixed_ctor bld DontAlign sizeof_T Size Options p init = Inr f \<Longrightarrow> fixed_data f = p"
  "fixed_ctor3 bld DontAlign sizeof_T Size Options p init n r c = Inr f \<Longrightarrow> fixed_data f = p"
  "fixed_data (fixed_ctor_skip p init) = p"
  "sdd_ctor bld DontAlign sizeof_T Size Options p init = Inr s1 \<Longrightarrow> sdd_data s1 = p"
  "sdd_ctor3 bld DontAlign sizeof_T Size Options p init n r c = Inr s1 \<Longrightarrow> sdd_data s1 = p"
  "sdd_data (sdd_ctor_skip p init) = p"
  "sdc_ctor bld DontAlign sizeof_T Size Options p init = Inr s2 \<Longrightarrow> sdc_data s2 = p"
  "sdc_ctor3 bld DontAlign sizeof_T Size Options p init n r c = Inr s2 \<Longrightarrow> sdc_data s2 = p"
  "sdc_data (sdc_ctor_skip p init) = p"
  "srd_ctor bld DontAlign sizeof_T Size Options p init = Inr s3 \<Longrightarrow> srd_data s3 = p"
  "srd_ctor3 bld DontAlign sizeof_T Size Options p init n r c = Inr s3 \<Longrightarrow> srd_data s3 = p"
  "srd_data (srd_ctor_skip p init) = p"
  by (auto simp: fixed_ctor_def fixed_ctor3_def fixed_ctor_skip_def fixed_data_def
      sdd_ctor_def sdd_ctor3_def sdd_ctor_skip_def sdd_data_def
      sdc_ctor_def sdc_ctor3_def sdc_ctor_skip_def sdc_data_def
      srd_ctor_def srd_ctor3_def srd_ctor_skip_def srd_data_def
      ei_matrix_array_ctor_skip_def
      split: sum.splits dest: ei_matrix_array_ctor_addr)

lemma heap_step_null_iff:
  assumes hc: "heap_class al place prd dat cnt cls"
    and pl: "nonnull_place place"
    and c: "consistent_op prd x"
    and I: "pair_null_iff dat cnt st"
  shows "pair_null_iff dat cnt (exec cls x st)"
proof -
  obtain a b w where st: "st = (a, b, w)" by (cases st)
  from I have a: "dat a = 0 \<longleftrightarrow> cnt a = 0" and b: "dat b = 0 \<longleftrightarrow> cnt b = 0"
    by (simp_all add: st pair_null_iff_def)
  show ?thesis
  proof (cases x)
    case (Resize_a n r k)
    with c have n: "prd r k = n" by simp
    from realloc_null_iff [OF pl a, of al n w] heap_class_resize [OF hc, of n r k a w] b
    show ?thesis by (simp add: st Resize_a pair_null_iff_def n case_prod_beta)
  next
    case (Resize_b n r k)
    with c have n: "prd r k = n" by simp
    from realloc_null_iff [OF pl b, of al n w] heap_class_resize [OF hc, of n r k b w] a
    show ?thesis by (simp add: st Resize_b pair_null_iff_def n case_prod_beta)
  next
    case Swap
    from a b show ?thesis
      by (simp add: st Swap heap_class_swap [OF hc] pair_null_iff_def)
  qed
qed

lemma heap_construct_null_iff:
  assumes hc: "heap_class al place prd dat cnt cls"
    and pl: "nonnull_place place"
    and c: "consistent_ctor prd ca" and z: "nonzero_ctor ca"
    and C: "construct cls ca w = (s, w')"
  shows "dat s = 0 \<longleftrightarrow> cnt s = 0"
proof (cases ca)
  case Default
  with heap_class_construct(1) [OF hc, of w s w'] C show ?thesis by simp
next
  case Skip_check
  with heap_class_construct(2) [OF hc, of w s w'] C show ?thesis by simp
next
  case (Three n r k)
  with c z have n: "prd r k = n" "n \<noteq> 0" by simp_all
  from heap_class_construct(3) [OF hc, of n r k w s w'] C Three
  have "dat s = place w al n" and "cnt s = n" by (simp_all add: n)
  with nonnull_placeD [OF pl n(2), of w al] n(2) show ?thesis by simp
qed

lemma heap_lifetime_null_iff:
  assumes hc: "heap_class al place prd dat cnt cls"
    and pl: "nonnull_place place"
    and ca: "consistent_ctor prd ca" "nonzero_ctor ca"
    and cb: "consistent_ctor prd cb" "nonzero_ctor cb"
    and ops: "list_all (consistent_op prd) ops"
  shows "pair_null_iff dat cnt (lifetime cls ca cb ops w)"
proof -
  obtain a w1 where A: "construct cls ca w = (a, w1)" by (cases "construct cls ca w")
  obtain b w2 where B: "construct cls cb w1 = (b, w2)" by (cases "construct cls cb w1")
  from heap_construct_null_iff [OF hc pl ca A] heap_construct_null_iff [OF hc pl cb B]
  have "pair_null_iff dat cnt (a, b, w2)" by (simp add: pair_null_iff_def)
  moreover have "\<And>x st. consistent_op prd x \<Longrightarrow> pair_null_iff dat cnt st \<Longrightarrow>
                    pair_null_iff dat cnt (exec cls x st)"
    by (rule heap_step_null_iff [OF hc pl])
  ultimately have "pair_null_iff dat cnt (run cls ops (a, b, w2))"
    using ops run_invariant [of "consistent_op prd" "pair_null_iff dat cnt" cls ops "(a, b, w2)"]
    by blast
  then show ?thesis by (simp add: lifetime_def A B)
qed

lemma fold_max_upper: "x \<in> set xs \<Longrightarrow> x \<le> fold max xs (a :: nat)"
proof (induction xs arbitrary: a)
  case Nil
  then show ?case by simp
next
  case (Cons y ys)
  have mono: "b \<le> fold max ys b" for b :: nat
    by (induction ys arbitrary: b) (auto intro: order_trans [OF max.cobounded2])
  from Cons show ?case
  proof (cases "x = y")
    case True
    have "y \<le> max y a" by simp
    also have "\<dots> \<le> fold max ys (max y a)" by (rule mono)
    finally show ?thesis using True by simp
  next
    case False
    with Cons show ?thesis by simp
  qed
qed

lemma bump_nonnull: "nonnull_place bump"
  by (simp add: nonnull_place_def bump_def)

lemma bump_fresh: "fresh_place bump"
  unfolding fresh_place_def
proof (intro allI notI)
  fix w al n
  assume "bump w al n \<in> fst ` set (blocks w)"
  then have "bump w al n \<in> set (map fst (blocks w))" by simp
  from fold_max_upper [OF this, of 0] show False by (simp add: bump_def)
qed

lemma owns_allocated_count: "owns al w p n \<Longrightarrow> allocated_count w p = Some n"
  by (simp add: owns_def allocated_count_def split: if_splits)

lemma owns_allocated_discipline:
  "owns al w p n \<Longrightarrow> p \<noteq> 0 \<Longrightarrow> allocated_discipline w p = Some al"
  by (simp add: owns_def allocated_discipline_def)

lemma heap_client_owns:
  assumes hc: "heap_class al place prd dat cnt cls"
    and pl: "nonnull_place place" "fresh_place place"
    and c: "consistent_client prd ca cb ops"
    and L: "lifetime cls ca cb ops w0 = (a, b, w)"
  shows "owns al w (dat a) (cnt a)" and "owns al w (dat b) (cnt b)"
proof -
  from c have "consistent_ctor prd ca" "consistent_ctor prd cb" "list_all (consistent_op prd) ops"
    by (simp_all add: consistent_client_def)
  from heap_lifetime_owns [OF hc pl this, of w0] L
  show "owns al w (dat a) (cnt a)" and "owns al w (dat b) (cnt b)"
    by (simp_all add: pair_owns_def)
qed

lemmas heap_eval = lifetime_def ddd_class_def drd_class_def ddc_class_def
  ddd_ctor_def ddd_ctor_skip_def ddd_ctor3_def ddd_resize_def ddd_swap_def ddd_dtor_def
  ddd_data_def ddd_rows_def ddd_cols_def
  drd_ctor_def drd_ctor_skip_def drd_ctor3_def drd_resize_def drd_swap_def drd_dtor_def
  drd_data_def drd_rows_def drd_cols_def
  ddc_ctor_def ddc_ctor_skip_def ddc_ctor3_def ddc_resize_def ddc_swap_def ddc_dtor_def
  ddc_data_def ddc_rows_def ddc_cols_def
  ei_conditional_aligned_new_def ei_conditional_aligned_delete_def align_requested_def
  bump_def empty_world_def allocated_count_def allocated_discipline_def

lemma example_ddd_lifetime:
  "lifetime (ddd_class 2 bump 0) (Three 6 2 3) Default
         [Resize_a 6 3 2, Swap, Resize_a 12 3 4, Resize_b 0 0 0] empty_world =
     (\<lparr>ddd_m_data = 32, ddd_m_rows = 3, ddd_m_cols = 4\<rparr>,
      \<lparr>ddd_m_data = 0, ddd_m_rows = 0, ddd_m_cols = 0\<rparr>,
      \<lparr>calls = [New True 6 16, Delete True 0 0, New True 12 32, Delete True 16 6],
       blocks = [(32, True, 12)]\<rparr>)"
  by (simp add: heap_eval)

lemma heap_client_null_iff:
  assumes hc: "heap_class al place prd dat cnt cls"
    and pl: "nonnull_place place"
    and c: "consistent_client prd ca cb ops" and z: "nonzero_client ca cb"
    and L: "lifetime cls ca cb ops w0 = (a, b, w)"
  shows "dat a = 0 \<longleftrightarrow> cnt a = 0" and "dat b = 0 \<longleftrightarrow> cnt b = 0"
proof -
  from c z have *: "consistent_ctor prd ca" "nonzero_ctor ca" "consistent_ctor prd cb"
    "nonzero_ctor cb" "list_all (consistent_op prd) ops"
    by (simp_all add: consistent_client_def nonzero_client_def)
  from heap_lifetime_null_iff [OF hc pl *, of w0] L
  show "dat a = 0 \<longleftrightarrow> cnt a = 0" and "dat b = 0 \<longleftrightarrow> cnt b = 0"
    by (simp_all add: pair_null_iff_def)
qed

lemma example_drd_lifetime:
  "lifetime (drd_class 2 bump 4 2) (Three 8 4 2) Skip_check
         [Resize_b 12 4 3, Swap, Resize_b 0 4 0, Resize_a 12 4 3] empty_world =
     (\<lparr>drd_m_data = 32, drd_m_cols = 3\<rparr>, \<lparr>drd_m_data = 0, drd_m_cols = 0\<rparr>,
      \<lparr>calls = [New False 8 16, Delete False 0 0, New False 12 32, Delete False 16 8],
       blocks = [(32, False, 12)]\<rparr>)"
  by (simp add: heap_eval)

lemma map_of_filter_self: "map_of (filter (\<lambda>e. fst e \<noteq> p) xs) p = None"
  by (induction xs) auto

lemma owns_delete_releases:
  assumes "owns al w p n"
  shows "releases_owned_buffer al p w (ei_conditional_aligned_delete al p n w)"
proof -
  have "p \<noteq> 0 \<Longrightarrow> allocated_count (ei_conditional_aligned_delete al p n w) p = None"
    unfolding allocated_count_def blocks_delete by (simp only: map_of_filter_self) simp
  moreover have "calls (ei_conditional_aligned_delete al p n w) = calls w @ [Delete al p n]"
    by (simp add: ei_conditional_aligned_delete_def)
  ultimately show ?thesis
    using owns_allocated_count [OF assms] owns_allocated_discipline [OF assms]
    by (simp add: releases_owned_buffer_def)
qed

lemma example_ddc_lifetime:
  "lifetime (ddc_class 2 bump 3 0) (Three 6 2 3) (Three 9 3 3) [Swap, Resize_b 12 4 3] empty_world =
     (\<lparr>ddc_m_data = 32, ddc_m_rows = 3\<rparr>, \<lparr>ddc_m_data = 48, ddc_m_rows = 4\<rparr>,
      \<lparr>calls = [New True 6 16, New True 9 32, Delete True 16 6, New True 12 48],
       blocks = [(48, True, 12), (32, True, 9)]\<rparr>)"
  by (simp add: heap_eval)

lemma and_0xf_iff_aligned16: "((p :: nat) AND 0xf) = 0 \<longleftrightarrow> aligned16 p"
proof -
  have "p AND mask 4 = p mod 2 ^ 4"
    by (simp only: take_bit_eq_mask [symmetric] take_bit_eq_mod)
  moreover have "(mask 4 :: nat) = 15" by (simp add: mask_eq_exp_minus_1)
  ultimately have "p AND 15 = p mod 16" by simp
  then show ?thesis by (simp add: aligned16_def mod_eq_0_iff_dvd)
qed

lemma ei_matrix_array_ctor_checked:
  assumes "debug bld" and "\<not> EIGEN_DISABLE_UNALIGNED_ARRAY_ASSERT bld"
  shows "ei_matrix_array_ctor bld 16 p init =
           (if aligned16 p then Inr \<lparr>array_addr = p, array = init\<rparr> else Inl Unaligned_array_assert)"
  using assms and_0xf_iff_aligned16 [of p]
  by (simp add: ei_matrix_array_ctor_def EIGEN_MAKE_UNALIGNED_ARRAY_ASSERT_def ei_assert_def)

lemma inline_swap_data:
  "fixed_data (fst (fixed_swap (f1, f2))) = fixed_data f1"
  "fixed_data (snd (fixed_swap (f1, f2))) = fixed_data f2"
  "sdd_data (fst (sdd_swap (a1, a2))) = sdd_data a1"
  "sdd_data (snd (sdd_swap (a1, a2))) = sdd_data a2"
  "sdc_data (fst (sdc_swap (b1, b2))) = sdc_data b1"
  "sdc_data (snd (sdc_swap (b1, b2))) = sdc_data b2"
  "srd_data (fst (srd_swap (c1, c2))) = srd_data c1"
  "srd_data (snd (srd_swap (c1, c2))) = srd_data c2"
  by (simp_all add: fixed_swap_def sdd_swap_def sdc_swap_def srd_swap_def swap_array_def
      fixed_data_def sdd_data_def sdc_data_def srd_data_def)

section \<open>Claims\<close>

text \<open>
  C1. On each of the three heap-buffer classes, \<^verbatim>\<open>resize(size, rows, cols)\<close> reallocates
  if and only if \<open>size\<close> differs from the product of the stored dimensions. When they are
  equal, \<^verbatim>\<open>data()\<close> and the world are unchanged. When they differ, the old buffer is handed
  to \<^verbatim>\<open>ei_conditional_aligned_delete\<close> with the old product; then, if \<open>size\<close> is zero, the
  pointer becomes null, otherwise a buffer of \<open>size\<close> elements is acquired and becomes
  \<^verbatim>\<open>data()\<close>. In every case the stored dynamic dimensions become the requested ones.
\<close>

theorem C1_heap_resize:
  "resize_contract (align_requested DontAlign Options) sz (ddd_rows s1 * ddd_cols s1) (ddd_data s1) w
     (ddd_data (fst (ddd_resize DontAlign place Options sz rows cols (s1, w))))
     (snd (ddd_resize DontAlign place Options sz rows cols (s1, w))) \<and>
   ddd_rows (fst (ddd_resize DontAlign place Options sz rows cols (s1, w))) = rows \<and>
   ddd_cols (fst (ddd_resize DontAlign place Options sz rows cols (s1, w))) = cols \<and>
   resize_contract (align_requested DontAlign Options) sz (drd_rows Rows * drd_cols s2) (drd_data s2) w
     (drd_data (fst (drd_resize DontAlign place Rows Options sz rows cols (s2, w))))
     (snd (drd_resize DontAlign place Rows Options sz rows cols (s2, w))) \<and>
   drd_cols (fst (drd_resize DontAlign place Rows Options sz rows cols (s2, w))) = cols \<and>
   resize_contract (align_requested DontAlign Options) sz (ddc_rows s3 * ddc_cols Cols) (ddc_data s3) w
     (ddc_data (fst (ddc_resize DontAlign place Cols Options sz rows cols (s3, w))))
     (snd (ddc_resize DontAlign place Cols Options sz rows cols (s3, w))) \<and>
   ddc_rows (fst (ddc_resize DontAlign place Cols Options sz rows cols (s3, w))) = rows"
proof -
  let ?al = "align_requested DontAlign Options"
  obtain p1 w1 where R1: "realloc ?al place sz (ddd_m_rows s1 * ddd_m_cols s1) (ddd_m_data s1, w) = (p1, w1)"
    by (cases "realloc ?al place sz (ddd_m_rows s1 * ddd_m_cols s1) (ddd_m_data s1, w)")
  obtain p2 w2 where R2: "realloc ?al place sz (Rows * drd_m_cols s2) (drd_m_data s2, w) = (p2, w2)"
    by (cases "realloc ?al place sz (Rows * drd_m_cols s2) (drd_m_data s2, w)")
  obtain p3 w3 where R3: "realloc ?al place sz (ddc_m_rows s3 * Cols) (ddc_m_data s3, w) = (p3, w3)"
    by (cases "realloc ?al place sz (ddc_m_rows s3 * Cols) (ddc_m_data s3, w)")
  from realloc_contract [OF R1] have "resize_contract ?al sz (ddd_rows s1 * ddd_cols s1) (ddd_data s1) w
     (ddd_data (fst (ddd_resize DontAlign place Options sz rows cols (s1, w))))
     (snd (ddd_resize DontAlign place Options sz rows cols (s1, w))) \<and>
   ddd_rows (fst (ddd_resize DontAlign place Options sz rows cols (s1, w))) = rows \<and>
   ddd_cols (fst (ddd_resize DontAlign place Options sz rows cols (s1, w))) = cols"
    by (simp add: ddd_resize_realloc R1 ddd_rows_def ddd_cols_def ddd_data_def)
  moreover from realloc_contract [OF R2] have "resize_contract ?al sz (drd_rows Rows * drd_cols s2) (drd_data s2) w
     (drd_data (fst (drd_resize DontAlign place Rows Options sz rows cols (s2, w))))
     (snd (drd_resize DontAlign place Rows Options sz rows cols (s2, w))) \<and>
   drd_cols (fst (drd_resize DontAlign place Rows Options sz rows cols (s2, w))) = cols"
    by (simp add: drd_resize_realloc R2 drd_rows_def drd_cols_def drd_data_def)
  moreover from realloc_contract [OF R3] have "resize_contract ?al sz (ddc_rows s3 * ddc_cols Cols) (ddc_data s3) w
     (ddc_data (fst (ddc_resize DontAlign place Cols Options sz rows cols (s3, w))))
     (snd (ddc_resize DontAlign place Cols Options sz rows cols (s3, w))) \<and>
   ddc_rows (fst (ddc_resize DontAlign place Cols Options sz rows cols (s3, w))) = rows"
    by (simp add: ddc_resize_realloc R3 ddc_rows_def ddc_cols_def ddc_data_def)
  ultimately show ?thesis by blast
qed

theorem C1_witness:
  "(12 :: cint) \<noteq> 2 * 3 \<and> (12 :: cint) \<noteq> 0 \<and>
   ddd_resize 2 bump 0 12 3 4
      (\<lparr>ddd_m_data = 16, ddd_m_rows = 2, ddd_m_cols = 3\<rparr>,
       \<lparr>calls = [New True 6 16], blocks = [(16, True, 6)]\<rparr>) =
     (\<lparr>ddd_m_data = 16, ddd_m_rows = 3, ddd_m_cols = 4\<rparr>,
      \<lparr>calls = [New True 6 16, Delete True 16 6, New True 12 16], blocks = [(16, True, 12)]\<rparr>) \<and>
   (0 :: cint) \<noteq> 2 * 3 \<and>
   drd_resize 2 bump 2 0 0 9 0
      (\<lparr>drd_m_data = 16, drd_m_cols = 3\<rparr>,
       \<lparr>calls = [New True 6 16], blocks = [(16, True, 6)]\<rparr>) =
     (\<lparr>drd_m_data = 0, drd_m_cols = 0\<rparr>,
      \<lparr>calls = [New True 6 16, Delete True 16 6], blocks = []\<rparr>) \<and>
   (6 :: cint) = 2 * 3 \<and>
   ddc_resize 2 bump 3 2 6 5 7
      (\<lparr>ddc_m_data = 16, ddc_m_rows = 2\<rparr>,
       \<lparr>calls = [New False 6 16], blocks = [(16, False, 6)]\<rparr>) =
     (\<lparr>ddc_m_data = 16, ddc_m_rows = 5\<rparr>,
      \<lparr>calls = [New False 6 16], blocks = [(16, False, 6)]\<rparr>)"
  using C1_heap_resize [of 2 0 12 "\<lparr>ddd_m_data = 16, ddd_m_rows = 2, ddd_m_cols = 3\<rparr>"
      "\<lparr>calls = [New True 6 16], blocks = [(16, True, 6)]\<rparr>" bump 3 4]
  by (simp add: heap_eval)

text \<open>
  C2 (amended). On each heap-buffer class: if every three-argument construction and every
  \<^verbatim>\<open>resize\<close> is given an element count equal to the product of the dimensions the call
  establishes, and the allocator returns a non-null address for a non-zero count and never
  an address whose block is still live, then after constructing two objects and running any
  sequence of \<^verbatim>\<open>resize\<close> and \<^verbatim>\<open>swap\<close> calls, \<^verbatim>\<open>rows() * cols()\<close> of each object is the
  number of elements its buffer was allocated with (zero when \<^verbatim>\<open>data()\<close> is null).
\<close>

theorem C2_rows_cols_is_allocated_count:
  assumes "nonnull_place place" and "fresh_place place"
  shows
  "(consistent_client (\<lambda>r c. r * c) ca cb ops \<longrightarrow>
      (case lifetime (ddd_class DontAlign place Options) ca cb ops w0 of (a, b, w) \<Rightarrow>
         allocated_count w (ddd_data a) = Some (ddd_rows a * ddd_cols a) \<and>
         allocated_count w (ddd_data b) = Some (ddd_rows b * ddd_cols b))) \<and>
   (consistent_client (\<lambda>r c. Rows * c) ca cb ops \<longrightarrow>
      (case lifetime (drd_class DontAlign place Rows Options) ca cb ops w0 of (a, b, w) \<Rightarrow>
         allocated_count w (drd_data a) = Some (drd_rows Rows * drd_cols a) \<and>
         allocated_count w (drd_data b) = Some (drd_rows Rows * drd_cols b))) \<and>
   (consistent_client (\<lambda>r c. r * Cols) ca cb ops \<longrightarrow>
      (case lifetime (ddc_class DontAlign place Cols Options) ca cb ops w0 of (a, b, w) \<Rightarrow>
         allocated_count w (ddc_data a) = Some (ddc_rows a * ddc_cols Cols) \<and>
         allocated_count w (ddc_data b) = Some (ddc_rows b * ddc_cols Cols)))"
proof (intro conjI impI)
  assume c: "consistent_client (\<lambda>r c. r * c) ca cb ops"
  obtain a b w where L: "lifetime (ddd_class DontAlign place Options) ca cb ops w0 = (a, b, w)"
    by (cases "lifetime (ddd_class DontAlign place Options) ca cb ops w0")
  from heap_client_owns [OF ddd_heap_class assms c L]
  show "case lifetime (ddd_class DontAlign place Options) ca cb ops w0 of (a, b, w) \<Rightarrow>
         allocated_count w (ddd_data a) = Some (ddd_rows a * ddd_cols a) \<and>
         allocated_count w (ddd_data b) = Some (ddd_rows b * ddd_cols b)"
    by (simp add: L owns_allocated_count)
next
  assume c: "consistent_client (\<lambda>r c. Rows * c) ca cb ops"
  obtain a b w where L: "lifetime (drd_class DontAlign place Rows Options) ca cb ops w0 = (a, b, w)"
    by (cases "lifetime (drd_class DontAlign place Rows Options) ca cb ops w0")
  from heap_client_owns [OF drd_heap_class assms c L]
  show "case lifetime (drd_class DontAlign place Rows Options) ca cb ops w0 of (a, b, w) \<Rightarrow>
         allocated_count w (drd_data a) = Some (drd_rows Rows * drd_cols a) \<and>
         allocated_count w (drd_data b) = Some (drd_rows Rows * drd_cols b)"
    by (simp add: L owns_allocated_count)
next
  assume c: "consistent_client (\<lambda>r c. r * Cols) ca cb ops"
  obtain a b w where L: "lifetime (ddc_class DontAlign place Cols Options) ca cb ops w0 = (a, b, w)"
    by (cases "lifetime (ddc_class DontAlign place Cols Options) ca cb ops w0")
  from heap_client_owns [OF ddc_heap_class assms c L]
  show "case lifetime (ddc_class DontAlign place Cols Options) ca cb ops w0 of (a, b, w) \<Rightarrow>
         allocated_count w (ddc_data a) = Some (ddc_rows a * ddc_cols Cols) \<and>
         allocated_count w (ddc_data b) = Some (ddc_rows b * ddc_cols Cols)"
    by (simp add: L owns_allocated_count)
qed

theorem C2_witness:
  "nonnull_place bump \<and> fresh_place bump \<and>
   consistent_client (\<lambda>r c. r * c) (Three 6 2 3) Default
     [Resize_a 6 3 2, Swap, Resize_a 12 3 4, Resize_b 0 0 0] \<and>
   lifetime (ddd_class 2 bump 0) (Three 6 2 3) Default
         [Resize_a 6 3 2, Swap, Resize_a 12 3 4, Resize_b 0 0 0] empty_world =
     (\<lparr>ddd_m_data = 32, ddd_m_rows = 3, ddd_m_cols = 4\<rparr>,
      \<lparr>ddd_m_data = 0, ddd_m_rows = 0, ddd_m_cols = 0\<rparr>,
      \<lparr>calls = [New True 6 16, Delete True 0 0, New True 12 32, Delete True 16 6],
       blocks = [(32, True, 12)]\<rparr>) \<and>
   allocated_count \<lparr>calls = [New True 6 16, Delete True 0 0, New True 12 32, Delete True 16 6],
       blocks = [(32, True, 12)]\<rparr> 32 = Some (3 * 4)"
  using C2_rows_cols_is_allocated_count [OF bump_nonnull bump_fresh, of "Three 6 2 3" Default
      "[Resize_a 6 3 2, Swap, Resize_a 12 3 4, Resize_b 0 0 0]" 2 0 empty_world]
  by (simp add: bump_nonnull bump_fresh consistent_client_def example_ddd_lifetime ddd_data_def ddd_rows_def
      ddd_cols_def)

text \<open>
  C2 as stated fails: the constructor trusts its caller. Constructing the fully dynamic
  class with \<open>(6, 1, 1)\<close> allocates six elements, while \<^verbatim>\<open>rows() * cols()\<close> is 1.
\<close>

theorem C2_counterexample:
  "allocated_count (snd (ddd_ctor3 2 bump 0 6 1 1 empty_world))
     (ddd_data (fst (ddd_ctor3 2 bump 0 6 1 1 empty_world))) = Some 6 \<and>
   ddd_rows (fst (ddd_ctor3 2 bump 0 6 1 1 empty_world)) *
   ddd_cols (fst (ddd_ctor3 2 bump 0 6 1 1 empty_world)) = 1"
  by (simp add: heap_eval)

text \<open>
  C3 (amended). On each heap-buffer class: if every three-argument construction and every
  \<^verbatim>\<open>resize\<close> is given an element count equal to the product of the dimensions the call
  establishes, no three-argument construction asks for zero elements, and the allocator
  returns a non-null address for a non-zero count, then after constructing two objects and
  running any sequence of \<^verbatim>\<open>resize\<close> and \<^verbatim>\<open>swap\<close> calls, \<^verbatim>\<open>data()\<close> of each object is
  null exactly when its \<^verbatim>\<open>rows() * cols()\<close> is zero.
\<close>

theorem C3_null_iff_zero_count:
  assumes "nonnull_place place"
  shows
  "(consistent_client (\<lambda>r c. r * c) ca cb ops \<and> nonzero_client ca cb \<longrightarrow>
      (case lifetime (ddd_class DontAlign place Options) ca cb ops w0 of (a, b, w) \<Rightarrow>
         (ddd_data a = 0 \<longleftrightarrow> ddd_rows a * ddd_cols a = 0) \<and>
         (ddd_data b = 0 \<longleftrightarrow> ddd_rows b * ddd_cols b = 0))) \<and>
   (consistent_client (\<lambda>r c. Rows * c) ca cb ops \<and> nonzero_client ca cb \<longrightarrow>
      (case lifetime (drd_class DontAlign place Rows Options) ca cb ops w0 of (a, b, w) \<Rightarrow>
         (drd_data a = 0 \<longleftrightarrow> drd_rows Rows * drd_cols a = 0) \<and>
         (drd_data b = 0 \<longleftrightarrow> drd_rows Rows * drd_cols b = 0))) \<and>
   (consistent_client (\<lambda>r c. r * Cols) ca cb ops \<and> nonzero_client ca cb \<longrightarrow>
      (case lifetime (ddc_class DontAlign place Cols Options) ca cb ops w0 of (a, b, w) \<Rightarrow>
         (ddc_data a = 0 \<longleftrightarrow> ddc_rows a * ddc_cols Cols = 0) \<and>
         (ddc_data b = 0 \<longleftrightarrow> ddc_rows b * ddc_cols Cols = 0)))"
proof (intro conjI impI; elim conjE)
  assume c: "consistent_client (\<lambda>r c. r * c) ca cb ops" and z: "nonzero_client ca cb"
  obtain a b w where L: "lifetime (ddd_class DontAlign place Options) ca cb ops w0 = (a, b, w)"
    by (cases "lifetime (ddd_class DontAlign place Options) ca cb ops w0")
  from heap_client_null_iff [OF ddd_heap_class assms c z L]
  show "case lifetime (ddd_class DontAlign place Options) ca cb ops w0 of (a, b, w) \<Rightarrow>
         (ddd_data a = 0 \<longleftrightarrow> ddd_rows a * ddd_cols a = 0) \<and>
         (ddd_data b = 0 \<longleftrightarrow> ddd_rows b * ddd_cols b = 0)"
    by (simp add: L)
next
  assume c: "consistent_client (\<lambda>r c. Rows * c) ca cb ops" and z: "nonzero_client ca cb"
  obtain a b w where L: "lifetime (drd_class DontAlign place Rows Options) ca cb ops w0 = (a, b, w)"
    by (cases "lifetime (drd_class DontAlign place Rows Options) ca cb ops w0")
  from heap_client_null_iff [OF drd_heap_class assms c z L]
  show "case lifetime (drd_class DontAlign place Rows Options) ca cb ops w0 of (a, b, w) \<Rightarrow>
         (drd_data a = 0 \<longleftrightarrow> drd_rows Rows * drd_cols a = 0) \<and>
         (drd_data b = 0 \<longleftrightarrow> drd_rows Rows * drd_cols b = 0)"
    by (simp add: L)
next
  assume c: "consistent_client (\<lambda>r c. r * Cols) ca cb ops" and z: "nonzero_client ca cb"
  obtain a b w where L: "lifetime (ddc_class DontAlign place Cols Options) ca cb ops w0 = (a, b, w)"
    by (cases "lifetime (ddc_class DontAlign place Cols Options) ca cb ops w0")
  from heap_client_null_iff [OF ddc_heap_class assms c z L]
  show "case lifetime (ddc_class DontAlign place Cols Options) ca cb ops w0 of (a, b, w) \<Rightarrow>
         (ddc_data a = 0 \<longleftrightarrow> ddc_rows a * ddc_cols Cols = 0) \<and>
         (ddc_data b = 0 \<longleftrightarrow> ddc_rows b * ddc_cols Cols = 0)"
    by (simp add: L)
qed

theorem C3_witness:
  "nonnull_place bump \<and>
   consistent_client (\<lambda>r c. 4 * c) (Three 8 4 2) Skip_check
     [Resize_b 12 4 3, Swap, Resize_b 0 4 0, Resize_a 12 4 3] \<and>
   nonzero_client (Three 8 4 2) Skip_check \<and>
   lifetime (drd_class 2 bump 4 2) (Three 8 4 2) Skip_check
         [Resize_b 12 4 3, Swap, Resize_b 0 4 0, Resize_a 12 4 3] empty_world =
     (\<lparr>drd_m_data = 32, drd_m_cols = 3\<rparr>, \<lparr>drd_m_data = 0, drd_m_cols = 0\<rparr>,
      \<lparr>calls = [New False 8 16, Delete False 0 0, New False 12 32, Delete False 16 8],
       blocks = [(32, False, 12)]\<rparr>) \<and>
   drd_rows 4 * drd_cols \<lparr>drd_m_data = 32, drd_m_cols = 3\<rparr> \<noteq> 0 \<and>
   drd_rows 4 * drd_cols \<lparr>drd_m_data = 0, drd_m_cols = 0\<rparr> = 0"
  using C3_null_iff_zero_count [OF bump_nonnull, of "Three 8 4 2" Skip_check
      "[Resize_b 12 4 3, Swap, Resize_b 0 4 0, Resize_a 12 4 3]" 2 2 empty_world 4]
  by (simp add: bump_nonnull consistent_client_def nonzero_client_def example_drd_lifetime drd_data_def
      drd_rows_def drd_cols_def)

text \<open>
  C3 as stated fails: \<^verbatim>\<open>resize\<close> compares the requested count with the stored product
  only. After default construction, \<open>resize(0, 2, 3)\<close> stores the dimensions 2 and 3
  without allocating (0 equals 0 * 0), and the following \<open>resize(6, 2, 3)\<close> finds 6 equal
  to 2 * 3 and does not allocate either: \<^verbatim>\<open>data()\<close> is null with six elements requested.
\<close>

theorem C3_counterexample:
  "ddd_data (fst (lifetime (ddd_class 2 bump 0) Default Default
                    [Resize_a 0 2 3, Resize_a 6 2 3] empty_world)) = 0 \<and>
   ddd_rows (fst (lifetime (ddd_class 2 bump 0) Default Default
                    [Resize_a 0 2 3, Resize_a 6 2 3] empty_world)) *
   ddd_cols (fst (lifetime (ddd_class 2 bump 0) Default Default
                    [Resize_a 0 2 3, Resize_a 6 2 3] empty_world)) = 6"
  by (simp add: heap_eval)

text \<open>
  C4. On each inline-buffer class, \<^verbatim>\<open>data()\<close> is the address of the embedded array. An
  object constructed (by any of the three constructors) at a non-null address \<open>p\<close>, as
  every live object is, has a non-null \<^verbatim>\<open>data()\<close>, and no sequence of \<^verbatim>\<open>resize\<close> calls
  changes it. \<^verbatim>\<open>resize\<close> writes the stored dynamic dimensions and nothing else: the
  requested element count is ignored, and the array (address and elements) stays as it was.
  (These classes exist for \<^verbatim>\<open>Size > 0\<close> only; \<^verbatim>\<open>Size = 0\<close> selects the null class.)
\<close>

theorem C4_inline_resize_frame:
  assumes "p \<noteq> 0"
  shows
  "(fixed_ctor bld DontAlign sizeof_T Size Options p init = Inr f \<or>
    fixed_ctor3 bld DontAlign sizeof_T Size Options p init n0 r0 c0 = Inr f \<or>
    f = fixed_ctor_skip p init \<longrightarrow>
      fixed_data f \<noteq> 0 \<and> fixed_data (resizes fixed_resize xs f) = fixed_data f) \<and>
   (sdd_ctor bld DontAlign sizeof_T Size Options p init = Inr s1 \<or>
    sdd_ctor3 bld DontAlign sizeof_T Size Options p init n0 r0 c0 = Inr s1 \<or>
    s1 = sdd_ctor_skip p init \<longrightarrow>
      sdd_data s1 \<noteq> 0 \<and> sdd_data (resizes sdd_resize xs s1) = sdd_data s1) \<and>
   (sdc_ctor bld DontAlign sizeof_T Size Options p init = Inr s2 \<or>
    sdc_ctor3 bld DontAlign sizeof_T Size Options p init n0 r0 c0 = Inr s2 \<or>
    s2 = sdc_ctor_skip p init \<longrightarrow>
      sdc_data s2 \<noteq> 0 \<and> sdc_data (resizes sdc_resize xs s2) = sdc_data s2) \<and>
   (srd_ctor bld DontAlign sizeof_T Size Options p init = Inr s3 \<or>
    srd_ctor3 bld DontAlign sizeof_T Size Options p init n0 r0 c0 = Inr s3 \<or>
    s3 = srd_ctor_skip p init \<longrightarrow>
      srd_data s3 \<noteq> 0 \<and> srd_data (resizes srd_resize xs s3) = srd_data s3) \<and>
   fixed_resize n r c f' = f' \<and>
   sdd_resize n r c a1 = a1\<lparr>sdd_m_rows := r, sdd_m_cols := c\<rparr> \<and>
   sdc_resize n r c a2 = a2\<lparr>sdc_m_rows := r\<rparr> \<and>
   srd_resize n r c a3 = a3\<lparr>srd_m_cols := c\<rparr> \<and>
   sdd_m_data (resizes sdd_resize xs a1) = sdd_m_data a1 \<and>
   sdc_m_data (resizes sdc_resize xs a2) = sdc_m_data a2 \<and>
   srd_m_data (resizes srd_resize xs a3) = srd_m_data a3 \<and>
   fixed_m_data (resizes fixed_resize xs f') = fixed_m_data f'"
proof -
  have "fixed_ctor bld DontAlign sizeof_T Size Options p init = Inr f \<or>
    fixed_ctor3 bld DontAlign sizeof_T Size Options p init n0 r0 c0 = Inr f \<or>
    f = fixed_ctor_skip p init \<longrightarrow>
      fixed_data f \<noteq> 0 \<and> fixed_data (resizes fixed_resize xs f) = fixed_data f"
    using assms by (auto simp: fixed_resizes_frame dest: inline_ctor_data(1,2) simp: inline_ctor_data(3))
  moreover have "sdd_ctor bld DontAlign sizeof_T Size Options p init = Inr s1 \<or>
    sdd_ctor3 bld DontAlign sizeof_T Size Options p init n0 r0 c0 = Inr s1 \<or>
    s1 = sdd_ctor_skip p init \<longrightarrow>
      sdd_data s1 \<noteq> 0 \<and> sdd_data (resizes sdd_resize xs s1) = sdd_data s1"
    using assms by (auto simp: sdd_data_def [of "resizes sdd_resize xs _"] sdd_resizes_frame
        sdd_data_def [symmetric] inline_ctor_data(6) dest: inline_ctor_data(4,5))
  moreover have "sdc_ctor bld DontAlign sizeof_T Size Options p init = Inr s2 \<or>
    sdc_ctor3 bld DontAlign sizeof_T Size Options p init n0 r0 c0 = Inr s2 \<or>
    s2 = sdc_ctor_skip p init \<longrightarrow>
      sdc_data s2 \<noteq> 0 \<and> sdc_data (resizes sdc_resize xs s2) = sdc_data s2"
    using assms by (auto simp: sdc_data_def [of "resizes sdc_resize xs _"] sdc_resizes_frame
        sdc_data_def [symmetric] inline_ctor_data(9) dest: inline_ctor_data(7,8))
  moreover have "srd_ctor bld DontAlign sizeof_T Size Options p init = Inr s3 \<or>
    srd_ctor3 bld DontAlign sizeof_T Size Options p init n0 r0 c0 = Inr s3 \<or>
    s3 = srd_ctor_skip p init \<longrightarrow>
      srd_data s3 \<noteq> 0 \<and> srd_data (resizes srd_resize xs s3) = srd_data s3"
    using assms by (auto simp: srd_data_def [of "resizes srd_resize xs _"] srd_resizes_frame
        srd_data_def [symmetric] inline_ctor_data(12) dest: inline_ctor_data(10,11))
  moreover have "fixed_resize n r c f' = f' \<and>
   sdd_resize n r c a1 = a1\<lparr>sdd_m_rows := r, sdd_m_cols := c\<rparr> \<and>
   sdc_resize n r c a2 = a2\<lparr>sdc_m_rows := r\<rparr> \<and>
   srd_resize n r c a3 = a3\<lparr>srd_m_cols := c\<rparr>"
    by (simp add: fixed_resize_def sdd_resize_def sdc_resize_def srd_resize_def)
  ultimately show ?thesis
    by (simp only: sdd_resizes_frame sdc_resizes_frame srd_resizes_frame fixed_resizes_frame simp_thms)
qed

theorem C4_witness:
  "(32 :: ptr) \<noteq> 0 \<and>
   sdd_data (sdd_ctor_skip 32 [0, 0, 0, 0 :: int]) = 32 \<and>
   sdd_data (resizes sdd_resize [(5, 2, 3), (100, 1, 1)] (sdd_ctor_skip 32 [0, 0, 0, 0 :: int])) = 32 \<and>
   sdd_rows (resizes sdd_resize [(5, 2, 3), (100, 1, 1)] (sdd_ctor_skip 32 [0, 0, 0, 0 :: int])) = 1"
  using C4_inline_resize_frame [of 32 _ _ _ _ _ "[0, 0, 0, 0 :: int]" _ _ _ _ "[(5, 2, 3), (100, 1, 1)]"
      "sdd_ctor_skip 32 [0, 0, 0, 0 :: int]"]
  by (simp add: sdd_ctor_skip_def ei_matrix_array_ctor_skip_def sdd_data_def sdd_resize_def
      sdd_rows_def)

text \<open>
  C5. On each of the eight storage classes, swapping twice gives back both objects as they
  were. A single swap exchanges everything: on the heap-buffer classes the two objects
  trade their whole state (pointer and dimensions); on the inline-buffer classes they trade
  the dimensions and the elements of the arrays, each array staying at its own address.
  No swap takes or returns the world: the heap, and with it the elements behind a swapped
  pointer, is untouched.
\<close>

theorem C5_swap_involution:
  "fixed_swap (fixed_swap (f1, f2)) = (f1, f2) \<and>
   null_swap (null_swap (n1, n2)) = (n1, n2) \<and>
   sdd_swap (sdd_swap (a1, a2)) = (a1, a2) \<and>
   sdc_swap (sdc_swap (b1, b2)) = (b1, b2) \<and>
   srd_swap (srd_swap (c1, c2)) = (c1, c2) \<and>
   ddd_swap (ddd_swap (d1, d2)) = (d1, d2) \<and>
   drd_swap (drd_swap (e1, e2)) = (e1, e2) \<and>
   ddc_swap (ddc_swap (g1, g2)) = (g1, g2) \<and>
   ddd_swap (d1, d2) = (d2, d1) \<and> drd_swap (e1, e2) = (e2, e1) \<and> ddc_swap (g1, g2) = (g2, g1) \<and>
   fixed_swap (f1, f2) =
     (f1\<lparr>fixed_m_data := (fixed_m_data f1)\<lparr>array := array (fixed_m_data f2)\<rparr>\<rparr>,
      f2\<lparr>fixed_m_data := (fixed_m_data f2)\<lparr>array := array (fixed_m_data f1)\<rparr>\<rparr>) \<and>
   sdd_swap (a1, a2) =
     (a2\<lparr>sdd_m_data := (sdd_m_data a1)\<lparr>array := array (sdd_m_data a2)\<rparr>\<rparr>,
      a1\<lparr>sdd_m_data := (sdd_m_data a2)\<lparr>array := array (sdd_m_data a1)\<rparr>\<rparr>) \<and>
   sdc_swap (b1, b2) =
     (b2\<lparr>sdc_m_data := (sdc_m_data b1)\<lparr>array := array (sdc_m_data b2)\<rparr>\<rparr>,
      b1\<lparr>sdc_m_data := (sdc_m_data b2)\<lparr>array := array (sdc_m_data b1)\<rparr>\<rparr>) \<and>
   srd_swap (c1, c2) =
     (c2\<lparr>srd_m_data := (srd_m_data c1)\<lparr>array := array (srd_m_data c2)\<rparr>\<rparr>,
      c1\<lparr>srd_m_data := (srd_m_data c2)\<lparr>array := array (srd_m_data c1)\<rparr>\<rparr>)"
  by (simp only: fixed_swap_twice sdd_swap_twice sdc_swap_twice srd_swap_twice
       ddd_swap_eq drd_swap_eq ddc_swap_eq null_swap_def
       fixed_swap_once [symmetric] sdd_swap_once [symmetric] sdc_swap_once [symmetric]
       srd_swap_once [symmetric] simp_thms)

text \<open>
  C6 (amended). On each inline-buffer class whose template argument \<^verbatim>\<open>Alignment\<close> is 16
  (the byte size is a multiple of 16 and \<^verbatim>\<open>DontAlign\<close> is not set), in a build where the
  assertion is active: the default and the three-argument constructor either fail with the
  fatal assertion or leave \<^verbatim>\<open>data()\<close> aligned to 16, and they fail whenever the object was
  placed at an unaligned address; the skip-check constructor performs no check and leaves
  \<^verbatim>\<open>data()\<close> at the address the object was placed at; \<^verbatim>\<open>swap\<close> leaves \<^verbatim>\<open>data()\<close> of
  both objects where it was, so an aligned buffer stays aligned.
\<close>

theorem C6_alignment_checked_or_inherited:
  assumes "Alignment DontAlign sizeof_T Size Options = 16"
    and "debug bld" and "\<not> EIGEN_DISABLE_UNALIGNED_ARRAY_ASSERT bld"
  shows
  "((fixed_ctor bld DontAlign sizeof_T Size Options p init = Inr f \<longrightarrow> aligned16 (fixed_data f)) \<and>
   (\<not> aligned16 p \<longrightarrow>
      fixed_ctor bld DontAlign sizeof_T Size Options p init = Inl Unaligned_array_assert) \<and>
   (fixed_ctor3 bld DontAlign sizeof_T Size Options p init n r c = Inr f \<longrightarrow> aligned16 (fixed_data f)) \<and>
   (\<not> aligned16 p \<longrightarrow>
      fixed_ctor3 bld DontAlign sizeof_T Size Options p init n r c = Inl Unaligned_array_assert) \<and>
   fixed_data (fixed_ctor_skip p init) = p \<and>
   fixed_data (fst (fixed_swap (f1, f2))) = fixed_data f1 \<and>
   fixed_data (snd (fixed_swap (f1, f2))) = fixed_data f2) \<and>
   ((sdd_ctor bld DontAlign sizeof_T Size Options p init = Inr s1 \<longrightarrow> aligned16 (sdd_data s1)) \<and>
   (\<not> aligned16 p \<longrightarrow>
      sdd_ctor bld DontAlign sizeof_T Size Options p init = Inl Unaligned_array_assert) \<and>
   (sdd_ctor3 bld DontAlign sizeof_T Size Options p init n r c = Inr s1 \<longrightarrow> aligned16 (sdd_data s1)) \<and>
   (\<not> aligned16 p \<longrightarrow>
      sdd_ctor3 bld DontAlign sizeof_T Size Options p init n r c = Inl Unaligned_array_assert) \<and>
   sdd_data (sdd_ctor_skip p init) = p \<and>
   sdd_data (fst (sdd_swap (a1, a2))) = sdd_data a1 \<and>
   sdd_data (snd (sdd_swap (a1, a2))) = sdd_data a2) \<and>
   ((sdc_ctor bld DontAlign sizeof_T Size Options p init = Inr s2 \<longrightarrow> aligned16 (sdc_data s2)) \<and>
   (\<not> aligned16 p \<longrightarrow>
      sdc_ctor bld DontAlign sizeof_T Size Options p init = Inl Unaligned_array_assert) \<and>
   (sdc_ctor3 bld DontAlign sizeof_T Size Options p init n r c = Inr s2 \<longrightarrow> aligned16 (sdc_data s2)) \<and>
   (\<not> aligned16 p \<longrightarrow>
      sdc_ctor3 bld DontAlign sizeof_T Size Options p init n r c = Inl Unaligned_array_assert) \<and>
   sdc_data (sdc_ctor_skip p init) = p \<and>
   sdc_data (fst (sdc_swap (b1, b2))) = sdc_data b1 \<and>
   sdc_data (snd (sdc_swap (b1, b2))) = sdc_data b2) \<and>
   ((srd_ctor bld DontAlign sizeof_T Size Options p init = Inr s3 \<longrightarrow> aligned16 (srd_data s3)) \<and>
   (\<not> aligned16 p \<longrightarrow>
      srd_ctor bld DontAlign sizeof_T Size Options p init = Inl Unaligned_array_assert) \<and>
   (srd_ctor3 bld DontAlign sizeof_T Size Options p init n r c = Inr s3 \<longrightarrow> aligned16 (srd_data s3)) \<and>
   (\<not> aligned16 p \<longrightarrow>
      srd_ctor3 bld DontAlign sizeof_T Size Options p init n r c = Inl Unaligned_array_assert) \<and>
   srd_data (srd_ctor_skip p init) = p \<and>
   srd_data (fst (srd_swap (c1, c2))) = srd_data c1 \<and>
   srd_data (snd (srd_swap (c1, c2))) = srd_data c2)"
proof -
  note chk = ei_matrix_array_ctor_checked [OF assms(2,3)]
  have fixed: "(fixed_ctor bld DontAlign sizeof_T Size Options p init = Inr f \<longrightarrow> aligned16 (fixed_data f)) \<and>
   (\<not> aligned16 p \<longrightarrow>
      fixed_ctor bld DontAlign sizeof_T Size Options p init = Inl Unaligned_array_assert) \<and>
   (fixed_ctor3 bld DontAlign sizeof_T Size Options p init n r c = Inr f \<longrightarrow> aligned16 (fixed_data f)) \<and>
   (\<not> aligned16 p \<longrightarrow>
      fixed_ctor3 bld DontAlign sizeof_T Size Options p init n r c = Inl Unaligned_array_assert) \<and>
   fixed_data (fixed_ctor_skip p init) = p \<and>
   fixed_data (fst (fixed_swap (f1, f2))) = fixed_data f1 \<and>
   fixed_data (snd (fixed_swap (f1, f2))) = fixed_data f2"
    by (auto simp: fixed_ctor_def fixed_ctor3_def assms(1) chk fixed_data_def fixed_ctor_skip_def
        ei_matrix_array_ctor_skip_def
        inline_swap_data(1,2) [unfolded fixed_data_def] split: if_splits)
  have sdd: "(sdd_ctor bld DontAlign sizeof_T Size Options p init = Inr s1 \<longrightarrow> aligned16 (sdd_data s1)) \<and>
   (\<not> aligned16 p \<longrightarrow>
      sdd_ctor bld DontAlign sizeof_T Size Options p init = Inl Unaligned_array_assert) \<and>
   (sdd_ctor3 bld DontAlign sizeof_T Size Options p init n r c = Inr s1 \<longrightarrow> aligned16 (sdd_data s1)) \<and>
   (\<not> aligned16 p \<longrightarrow>
      sdd_ctor3 bld DontAlign sizeof_T Size Options p init n r c = Inl Unaligned_array_assert) \<and>
   sdd_data (sdd_ctor_skip p init) = p \<and>
   sdd_data (fst (sdd_swap (a1, a2))) = sdd_data a1 \<and>
   sdd_data (snd (sdd_swap (a1, a2))) = sdd_data a2"
    by (auto simp: sdd_ctor_def sdd_ctor3_def assms(1) chk sdd_data_def sdd_ctor_skip_def
        ei_matrix_array_ctor_skip_def
        inline_swap_data(3,4) [unfolded sdd_data_def] split: if_splits)
  have sdc: "(sdc_ctor bld DontAlign sizeof_T Size Options p init = Inr s2 \<longrightarrow> aligned16 (sdc_data s2)) \<and>
   (\<not> aligned16 p \<longrightarrow>
      sdc_ctor bld DontAlign sizeof_T Size Options p init = Inl Unaligned_array_assert) \<and>
   (sdc_ctor3 bld DontAlign sizeof_T Size Options p init n r c = Inr s2 \<longrightarrow> aligned16 (sdc_data s2)) \<and>
   (\<not> aligned16 p \<longrightarrow>
      sdc_ctor3 bld DontAlign sizeof_T Size Options p init n r c = Inl Unaligned_array_assert) \<and>
   sdc_data (sdc_ctor_skip p init) = p \<and>
   sdc_data (fst (sdc_swap (b1, b2))) = sdc_data b1 \<and>
   sdc_data (snd (sdc_swap (b1, b2))) = sdc_data b2"
    by (auto simp: sdc_ctor_def sdc_ctor3_def assms(1) chk sdc_data_def sdc_ctor_skip_def
        ei_matrix_array_ctor_skip_def
        inline_swap_data(5,6) [unfolded sdc_data_def] split: if_splits)
  have srd: "(srd_ctor bld DontAlign sizeof_T Size Options p init = Inr s3 \<longrightarrow> aligned16 (srd_data s3)) \<and>
   (\<not> aligned16 p \<longrightarrow>
      srd_ctor bld DontAlign sizeof_T Size Options p init = Inl Unaligned_array_assert) \<and>
   (srd_ctor3 bld DontAlign sizeof_T Size Options p init n r c = Inr s3 \<longrightarrow> aligned16 (srd_data s3)) \<and>
   (\<not> aligned16 p \<longrightarrow>
      srd_ctor3 bld DontAlign sizeof_T Size Options p init n r c = Inl Unaligned_array_assert) \<and>
   srd_data (srd_ctor_skip p init) = p \<and>
   srd_data (fst (srd_swap (c1, c2))) = srd_data c1 \<and>
   srd_data (snd (srd_swap (c1, c2))) = srd_data c2"
    by (auto simp: srd_ctor_def srd_ctor3_def assms(1) chk srd_data_def srd_ctor_skip_def
        ei_matrix_array_ctor_skip_def
        inline_swap_data(7,8) [unfolded srd_data_def] split: if_splits)
  show ?thesis by (rule conjI [OF fixed conjI [OF sdd conjI [OF sdc srd]]])
qed

theorem C6_witness:
  "Alignment 2 4 4 0 = 16 \<and>
   debug \<lparr>EIGEN_DISABLE_UNALIGNED_ARRAY_ASSERT = False, debug = True\<rparr> \<and>
   \<not> EIGEN_DISABLE_UNALIGNED_ARRAY_ASSERT \<lparr>EIGEN_DISABLE_UNALIGNED_ARRAY_ASSERT = False, debug = True\<rparr> \<and>
   fixed_ctor \<lparr>EIGEN_DISABLE_UNALIGNED_ARRAY_ASSERT = False, debug = True\<rparr> 2 4 4 0 32 [1, 2, 3, 4 :: int] =
     Inr \<lparr>fixed_m_data = \<lparr>array_addr = 32, array = [1, 2, 3, 4]\<rparr>\<rparr> \<and>
   aligned16 (fixed_data \<lparr>fixed_m_data = \<lparr>array_addr = 32, array = [1, 2, 3, 4 :: int]\<rparr>\<rparr>) \<and>
   \<not> aligned16 8 \<and>
   fixed_ctor \<lparr>EIGEN_DISABLE_UNALIGNED_ARRAY_ASSERT = False, debug = True\<rparr> 2 4 4 0 8 [1, 2, 3, 4 :: int] =
     Inl Unaligned_array_assert"
  using C6_alignment_checked_or_inherited [of 2 4 4 0
      "\<lparr>EIGEN_DISABLE_UNALIGNED_ARRAY_ASSERT = False, debug = True\<rparr>" 32 "[1, 2, 3, 4 :: int]"
      "\<lparr>fixed_m_data = \<lparr>array_addr = 32, array = [1, 2, 3, 4]\<rparr>\<rparr>"]
  by (simp add: ctor_eval aligned16_def fixed_data_def)

text \<open>
  C6 as stated fails: nothing in the skip-check path, nor in the checked path of a build
  without active assertions, makes the address aligned. A four-element array of 4-byte
  elements (16 bytes, \<^verbatim>\<open>Alignment = 16\<close>) placed at address 8 is constructed without
  complaint, and \<^verbatim>\<open>data()\<close> is 8.
\<close>

theorem C6_counterexample:
  "Alignment 2 4 4 0 = 16 \<and>
   fixed_data (fixed_ctor_skip 8 [1, 2, 3, 4 :: int]) = 8 \<and>
   (fixed_data (fixed_ctor_skip 8 [1, 2, 3, 4 :: int]) AND 0xf) = 8 \<and>
   \<not> aligned16 (fixed_data (fixed_ctor_skip 8 [1, 2, 3, 4 :: int])) \<and>
   fixed_ctor \<lparr>EIGEN_DISABLE_UNALIGNED_ARRAY_ASSERT = False, debug = False\<rparr> 2 4 4 0 8 [1, 2, 3, 4 :: int] =
     Inr \<lparr>fixed_m_data = \<lparr>array_addr = 8, array = [1, 2, 3, 4]\<rparr>\<rparr>"
  by (simp add: ctor_eval aligned16_def fixed_data_def fixed_ctor_skip_def
      ei_matrix_array_ctor_skip_def)

text \<open>
  C7 (amended). On each heap-buffer class: if every three-argument construction and every
  \<^verbatim>\<open>resize\<close> is given an element count equal to the product of the dimensions the call
  establishes, and the allocator returns a non-null address for a non-zero count and never
  an address whose block is still live, then after constructing two objects and running any
  sequence of \<^verbatim>\<open>resize\<close> and \<^verbatim>\<open>swap\<close> calls, destroying either object makes exactly one
  call of
  \<^verbatim>\<open>ei_conditional_aligned_delete\<close>, for the object's \<^verbatim>\<open>data()\<close>, with the discipline the
  buffer was acquired with and with the element count it was allocated with; the block is
  not live afterwards.
\<close>

theorem C7_destruction_releases_owned_buffer:
  assumes "nonnull_place place" and "fresh_place place"
  shows
  "(consistent_client (\<lambda>r c. r * c) ca cb ops \<longrightarrow>
      (case lifetime (ddd_class DontAlign place Options) ca cb ops w0 of (a, b, w) \<Rightarrow>
         releases_owned_buffer (align_requested DontAlign Options) (ddd_data a) w
           (ddd_dtor DontAlign Options a w) \<and>
         releases_owned_buffer (align_requested DontAlign Options) (ddd_data b) w
           (ddd_dtor DontAlign Options b w))) \<and>
   (consistent_client (\<lambda>r c. Rows * c) ca cb ops \<longrightarrow>
      (case lifetime (drd_class DontAlign place Rows Options) ca cb ops w0 of (a, b, w) \<Rightarrow>
         releases_owned_buffer (align_requested DontAlign Options) (drd_data a) w
           (drd_dtor DontAlign Rows Options a w) \<and>
         releases_owned_buffer (align_requested DontAlign Options) (drd_data b) w
           (drd_dtor DontAlign Rows Options b w))) \<and>
   (consistent_client (\<lambda>r c. r * Cols) ca cb ops \<longrightarrow>
      (case lifetime (ddc_class DontAlign place Cols Options) ca cb ops w0 of (a, b, w) \<Rightarrow>
         releases_owned_buffer (align_requested DontAlign Options) (ddc_data a) w
           (ddc_dtor DontAlign Cols Options a w) \<and>
         releases_owned_buffer (align_requested DontAlign Options) (ddc_data b) w
           (ddc_dtor DontAlign Cols Options b w)))"
proof (intro conjI impI)
  assume c: "consistent_client (\<lambda>r c. r * c) ca cb ops"
  obtain a b w where L: "lifetime (ddd_class DontAlign place Options) ca cb ops w0 = (a, b, w)"
    by (cases "lifetime (ddd_class DontAlign place Options) ca cb ops w0")
  from heap_client_owns [OF ddd_heap_class assms c L, THEN owns_delete_releases]
  show "case lifetime (ddd_class DontAlign place Options) ca cb ops w0 of (a, b, w) \<Rightarrow>
         releases_owned_buffer (align_requested DontAlign Options) (ddd_data a) w
           (ddd_dtor DontAlign Options a w) \<and>
         releases_owned_buffer (align_requested DontAlign Options) (ddd_data b) w
           (ddd_dtor DontAlign Options b w)"
    by (simp add: L ddd_dtor_def ddd_data_def ddd_rows_def ddd_cols_def)
next
  assume c: "consistent_client (\<lambda>r c. Rows * c) ca cb ops"
  obtain a b w where L: "lifetime (drd_class DontAlign place Rows Options) ca cb ops w0 = (a, b, w)"
    by (cases "lifetime (drd_class DontAlign place Rows Options) ca cb ops w0")
  from heap_client_owns [OF drd_heap_class assms c L, THEN owns_delete_releases]
  show "case lifetime (drd_class DontAlign place Rows Options) ca cb ops w0 of (a, b, w) \<Rightarrow>
         releases_owned_buffer (align_requested DontAlign Options) (drd_data a) w
           (drd_dtor DontAlign Rows Options a w) \<and>
         releases_owned_buffer (align_requested DontAlign Options) (drd_data b) w
           (drd_dtor DontAlign Rows Options b w)"
    by (simp add: L drd_dtor_def drd_data_def drd_rows_def drd_cols_def)
next
  assume c: "consistent_client (\<lambda>r c. r * Cols) ca cb ops"
  obtain a b w where L: "lifetime (ddc_class DontAlign place Cols Options) ca cb ops w0 = (a, b, w)"
    by (cases "lifetime (ddc_class DontAlign place Cols Options) ca cb ops w0")
  from heap_client_owns [OF ddc_heap_class assms c L, THEN owns_delete_releases]
  show "case lifetime (ddc_class DontAlign place Cols Options) ca cb ops w0 of (a, b, w) \<Rightarrow>
         releases_owned_buffer (align_requested DontAlign Options) (ddc_data a) w
           (ddc_dtor DontAlign Cols Options a w) \<and>
         releases_owned_buffer (align_requested DontAlign Options) (ddc_data b) w
           (ddc_dtor DontAlign Cols Options b w)"
    by (simp add: L ddc_dtor_def ddc_data_def ddc_rows_def ddc_cols_def mult.commute)
qed

theorem C7_witness:
  "nonnull_place bump \<and> fresh_place bump \<and>
   consistent_client (\<lambda>r c. r * 3) (Three 6 2 3) (Three 9 3 3) [Swap, Resize_b 12 4 3] \<and>
   lifetime (ddc_class 2 bump 3 0) (Three 6 2 3) (Three 9 3 3) [Swap, Resize_b 12 4 3] empty_world =
     (\<lparr>ddc_m_data = 32, ddc_m_rows = 3\<rparr>, \<lparr>ddc_m_data = 48, ddc_m_rows = 4\<rparr>,
      \<lparr>calls = [New True 6 16, New True 9 32, Delete True 16 6, New True 12 48],
       blocks = [(48, True, 12), (32, True, 9)]\<rparr>) \<and>
   calls (ddc_dtor 2 3 0 \<lparr>ddc_m_data = 32, ddc_m_rows = 3\<rparr>
      \<lparr>calls = [New True 6 16, New True 9 32, Delete True 16 6, New True 12 48],
       blocks = [(48, True, 12), (32, True, 9)]\<rparr>) =
     [New True 6 16, New True 9 32, Delete True 16 6, New True 12 48, Delete True 32 9]"
  using C7_destruction_releases_owned_buffer [OF bump_nonnull bump_fresh, of "Three 6 2 3" "Three 9 3 3"
      "[Swap, Resize_b 12 4 3]" 2 0 empty_world _ 3]
  by (simp add: bump_nonnull bump_fresh consistent_client_def example_ddc_lifetime ddc_dtor_def
      ei_conditional_aligned_delete_def align_requested_def)

text \<open>
  C7 as stated fails: the destructor passes the product of the stored dimensions, whatever
  the buffer was allocated with. After construction with \<open>(6, 1, 1)\<close> the six-element
  buffer is released with count 1.
\<close>

theorem C7_counterexample:
  "allocated_count (snd (ddd_ctor3 2 bump 0 6 1 1 empty_world))
     (ddd_data (fst (ddd_ctor3 2 bump 0 6 1 1 empty_world))) = Some 6 \<and>
   calls (ddd_dtor 2 0 (fst (ddd_ctor3 2 bump 0 6 1 1 empty_world))
            (snd (ddd_ctor3 2 bump 0 6 1 1 empty_world))) =
     [New True 6 16, Delete True 16 1] \<and>
   \<not> releases_owned_buffer True (ddd_data (fst (ddd_ctor3 2 bump 0 6 1 1 empty_world)))
        (snd (ddd_ctor3 2 bump 0 6 1 1 empty_world))
        (ddd_dtor 2 0 (fst (ddd_ctor3 2 bump 0 6 1 1 empty_world))
           (snd (ddd_ctor3 2 bump 0 6 1 1 empty_world)))"
  by (simp add: heap_eval releases_owned_buffer_def)

text \<open>
  C8. On the null class, \<^verbatim>\<open>data()\<close> is null after any sequence of \<^verbatim>\<open>resize\<close> and
  \<^verbatim>\<open>swap\<close> calls with any arguments, and \<^verbatim>\<open>rows()\<close> and \<^verbatim>\<open>cols()\<close> are the template
  arguments \<^verbatim>\<open>_Rows\<close> and \<^verbatim>\<open>_Cols\<close>.
\<close>

theorem C8_null_variant:
  "null_data (fst (run null_class ops (a, b, w))) = 0 \<and>
   null_data (fst (snd (run null_class ops (a, b, w)))) = 0 \<and>
   null_data (null_resize sz rows cols a) = 0 \<and>
   null_data (fst (null_swap (a, b))) = 0 \<and> null_data (snd (null_swap (a, b))) = 0 \<and>
   null_rows Rows = Rows \<and> null_cols Cols = Cols"
  by (simp add: null_data_def null_rows_def null_cols_def)

text \<open>
  C9. Right after default construction of a class with a dynamic dimension, every stored
  dynamic dimension is 0, so \<^verbatim>\<open>rows() * cols()\<close> is 0; on the heap-buffer classes
  \<^verbatim>\<open>data()\<close> is null and the world is untouched: no allocation took place.
\<close>

theorem C9_default_ctor:
  "(sdd_ctor bld DontAlign sizeof_T Size Options p init = Inr s1 \<longrightarrow>
      sdd_m_rows s1 = 0 \<and> sdd_m_cols s1 = 0 \<and> sdd_rows s1 * sdd_cols s1 = 0) \<and>
   (sdc_ctor bld DontAlign sizeof_T Size Options p init = Inr s2 \<longrightarrow>
      sdc_m_rows s2 = 0 \<and> sdc_rows s2 * sdc_cols Cols = 0) \<and>
   (srd_ctor bld DontAlign sizeof_T Size Options p init = Inr s3 \<longrightarrow>
      srd_m_cols s3 = 0 \<and> srd_rows Rows * srd_cols s3 = 0) \<and>
   snd (ddd_ctor w) = w \<and> ddd_data (fst (ddd_ctor w)) = 0 \<and>
   ddd_m_rows (fst (ddd_ctor w)) = 0 \<and> ddd_m_cols (fst (ddd_ctor w)) = 0 \<and>
   ddd_rows (fst (ddd_ctor w)) * ddd_cols (fst (ddd_ctor w)) = 0 \<and>
   snd (drd_ctor w) = w \<and> drd_data (fst (drd_ctor w)) = 0 \<and>
   drd_m_cols (fst (drd_ctor w)) = 0 \<and>
   drd_rows Rows * drd_cols (fst (drd_ctor w)) = 0 \<and>
   snd (ddc_ctor w) = w \<and> ddc_data (fst (ddc_ctor w)) = 0 \<and>
   ddc_m_rows (fst (ddc_ctor w)) = 0 \<and>
   ddc_rows (fst (ddc_ctor w)) * ddc_cols Cols = 0"
  by (auto simp: sdd_ctor_def sdc_ctor_def srd_ctor_def sdd_rows_def sdd_cols_def sdc_rows_def
      srd_cols_def ddd_ctor_def ddd_data_def ddd_rows_def ddd_cols_def drd_ctor_def drd_data_def
      drd_cols_def ddc_ctor_def ddc_data_def ddc_rows_def split: sum.splits)

theorem C9_witness:
  "sdd_ctor \<lparr>EIGEN_DISABLE_UNALIGNED_ARRAY_ASSERT = False, debug = True\<rparr> 2 4 4 0 32 [0, 0, 0, 0 :: int]
     = Inr \<lparr>sdd_m_data = \<lparr>array_addr = 32, array = [0, 0, 0, 0]\<rparr>, sdd_m_rows = 0, sdd_m_cols = 0\<rparr> \<and>
   sdc_ctor \<lparr>EIGEN_DISABLE_UNALIGNED_ARRAY_ASSERT = False, debug = True\<rparr> 2 4 4 0 32 [0, 0, 0, 0 :: int]
     = Inr \<lparr>sdc_m_data = \<lparr>array_addr = 32, array = [0, 0, 0, 0]\<rparr>, sdc_m_rows = 0\<rparr> \<and>
   srd_ctor \<lparr>EIGEN_DISABLE_UNALIGNED_ARRAY_ASSERT = False, debug = True\<rparr> 2 4 4 0 32 [0, 0, 0, 0 :: int]
     = Inr \<lparr>srd_m_data = \<lparr>array_addr = 32, array = [0, 0, 0, 0]\<rparr>, srd_m_cols = 0\<rparr> \<and>
   sdd_rows \<lparr>sdd_m_data = \<lparr>array_addr = 32, array = [0, 0, 0, 0 :: int]\<rparr>, sdd_m_rows = 0, sdd_m_cols = 0\<rparr> *
   sdd_cols \<lparr>sdd_m_data = \<lparr>array_addr = 32, array = [0, 0, 0, 0 :: int]\<rparr>, sdd_m_rows = 0, sdd_m_cols = 0\<rparr> = 0"
  using C9_default_ctor [of "\<lparr>EIGEN_DISABLE_UNALIGNED_ARRAY_ASSERT = False, debug = True\<rparr>" 2 4 4 0 32
      "[0, 0, 0, 0 :: int]"
      "\<lparr>sdd_m_data = \<lparr>array_addr = 32, array = [0, 0, 0, 0]\<rparr>, sdd_m_rows = 0, sdd_m_cols = 0\<rparr>"]
  by (simp add: ctor_eval)

text \<open>
  C10. On each heap-buffer class the constructor taking
  \<^verbatim>\<open>ei_constructor_without_unaligned_array_assert\<close> builds the same object as the default
  constructor, with \<^verbatim>\<open>data()\<close> null and every dynamic dimension 0, and leaves the world
  untouched.
\<close>

theorem C10_skip_check_ctor:
  "ddd_ctor_skip w = ddd_ctor w \<and> snd (ddd_ctor_skip w) = w \<and>
   ddd_data (fst (ddd_ctor_skip w)) = 0 \<and>
   ddd_m_rows (fst (ddd_ctor_skip w)) = 0 \<and> ddd_m_cols (fst (ddd_ctor_skip w)) = 0 \<and>
   drd_ctor_skip w = drd_ctor w \<and> snd (drd_ctor_skip w) = w \<and>
   drd_data (fst (drd_ctor_skip w)) = 0 \<and> drd_m_cols (fst (drd_ctor_skip w)) = 0 \<and>
   ddc_ctor_skip w = ddc_ctor w \<and> snd (ddc_ctor_skip w) = w \<and>
   ddc_data (fst (ddc_ctor_skip w)) = 0 \<and> ddc_m_rows (fst (ddc_ctor_skip w)) = 0"
  by (simp add: ddd_ctor_skip_def ddd_ctor_def ddd_data_def drd_ctor_skip_def drd_ctor_def
      drd_data_def ddc_ctor_skip_def ddc_ctor_def ddc_data_def)

end
